theory Spec2Isabelle
  imports Complex_Main "HOL-Library.Sublist"
begin

section \<open>Python values used by the agent core\<close>

text \<open>
  A Python \<open>str\<close> is a sequence of Unicode code points, so \<open>len\<close> is \<open>length\<close> and
  \<open>a in b\<close> on strings is contiguous containment (\<open>sublist\<close>).  ASCII literals are
  written through \<open>ascii\<close>; literals with CJK characters are written as their code points,
  with the text in a comment.  Python floats are modelled as exact rationals.
\<close>

type_synonym pystr = "nat list"

definition ascii :: "string \<Rightarrow> pystr" where
  "ascii s = map of_char s"

text \<open>\<open>any(kw in s for kw in kws)\<close>, also the shape of the loops
  \<open>for kw in kws: if kw in s: return ...\<close>.\<close>

definition any_in :: "pystr list \<Rightarrow> pystr \<Rightarrow> bool" where
  "any_in kws s = list_ex (\<lambda>kw. sublist kw s) kws"

section \<open>Intent classifier (unified\_agent.py)\<close>

datatype TaskType =
    QUESTION_ANSWERING
  | LITERATURE_RESEARCH
  | SCHEDULE_PLANNING
  | EXPERIMENT_MANAGEMENT
  | GENERAL

text \<open>The four keyword tables of \<open>_rule_based_classify\<close>, in the order of the source.\<close>

definition literature_keywords :: "pystr list" where
  "literature_keywords =
    [ [35770, 25991] \<comment> \<open>lun wen (paper)\<close>,
      [25991, 29486] \<comment> \<open>wen xian (literature)\<close>,
      [25628, 32034] \<comment> \<open>sou suo (search)\<close>,
      [30740, 31350] \<comment> \<open>yan jiu (research)\<close>,
      [23398, 26415] \<comment> \<open>xue shu (academic)\<close>,
      ascii ''paper'', ascii ''arxiv'', ascii ''publication'',
      [35843, 30740] \<comment> \<open>diao yan (survey)\<close>,
      [26597, 25214] \<comment> \<open>cha zhao (look up)\<close> ]"

definition schedule_keywords :: "pystr list" where
  "schedule_keywords =
    [ [26085, 31243] \<comment> \<open>ri cheng\<close>,
      [20250, 35758] \<comment> \<open>hui yi\<close>,
      [23433, 25490] \<comment> \<open>an pai\<close>,
      [35745, 21010] \<comment> \<open>ji hua\<close>,
      [21608] \<comment> \<open>zhou\<close>,
      [26126, 22825] \<comment> \<open>ming tian\<close>,
      [19979, 21608] \<comment> \<open>xia zhou\<close>,
      ascii ''schedule'', ascii ''meeting'', ascii ''plan'',
      [25552, 37266] \<comment> \<open>ti xing\<close> ]"

definition experiment_keywords :: "pystr list" where
  "experiment_keywords =
    [ [23454, 39564] \<comment> \<open>shi yan\<close>,
      [25968, 25454] \<comment> \<open>shu ju\<close>,
      ascii ''csv'',
      [32479, 35745] \<comment> \<open>tong ji\<close>,
      [20998, 26512] \<comment> \<open>fen xi\<close>,
      [25972, 29702] \<comment> \<open>zheng li\<close>,
      ascii ''experiment'', ascii ''data'', ascii ''analysis'' ]"

definition question_keywords :: "pystr list" where
  "question_keywords =
    [ [35299, 37322] \<comment> \<open>jie shi\<close>,
      [20160, 20040, 26159] \<comment> \<open>shen me shi\<close>,
      [21407, 29702] \<comment> \<open>yuan li\<close>,
      [22914, 20309] \<comment> \<open>ru he\<close>,
      [20026, 20160, 20040] \<comment> \<open>wei shen me\<close>,
      ascii ''explain'', ascii ''what'', ascii ''how'', ascii ''why'',
      [20171, 32461] \<comment> \<open>jie shao\<close> ]"

text \<open>
  \<open>_rule_based_classify\<close>.  Python's built-in \<open>str.lower\<close> is the parameter \<open>lower\<close>:
  the classifier is modelled for every case mapping.
\<close>

definition rule_based_classify :: "(pystr \<Rightarrow> pystr) \<Rightarrow> pystr \<Rightarrow> TaskType" where
  "rule_based_classify lower task =
    (let task_lower = lower task in
     if any_in literature_keywords task_lower then LITERATURE_RESEARCH
     else if any_in schedule_keywords task_lower then SCHEDULE_PLANNING
     else if any_in experiment_keywords task_lower then EXPERIMENT_MANAGEMENT
     else if any_in question_keywords task_lower then QUESTION_ANSWERING
     else GENERAL)"

text \<open>
  \<open>_classify_task\<close>: \<open>client\<close> is \<open>None\<close> when no oracle is configured; otherwise it
  holds the outcome of the one \<open>_call_llm\<close> made here.  \<open>_call_llm\<close> catches its own
  exceptions and returns text either way, so the outcome is a string (its \<open>strip()\<close> does
  not change what the string contains).
\<close>

definition classify_task :: "(pystr \<Rightarrow> pystr) \<Rightarrow> pystr option \<Rightarrow> pystr \<Rightarrow> TaskType" where
  "classify_task lower client task =
    (case client of
       None \<Rightarrow> rule_based_classify lower task
     | Some reply \<Rightarrow>
         (let result = lower reply in
          if sublist (ascii ''literature'') result \<or> sublist [25991, 29486] result
            then LITERATURE_RESEARCH
          else if sublist (ascii ''schedule'') result \<or> sublist [26085, 31243] result
            then SCHEDULE_PLANNING
          else if sublist (ascii ''experiment'') result \<or> sublist [23454, 39564] result
            then EXPERIMENT_MANAGEMENT
          else if sublist (ascii ''question'') result \<or> sublist [38382, 39064] result
            then QUESTION_ANSWERING
          else rule_based_classify lower task))"

text \<open>The ordered rule table in the words of the specification: the task types in the
  order they are checked, each with its keywords.\<close>

definition classification_rules :: "(TaskType \<times> pystr list) list" where
  "classification_rules =
    [ (LITERATURE_RESEARCH, literature_keywords),
      (SCHEDULE_PLANNING, schedule_keywords),
      (EXPERIMENT_MANAGEMENT, experiment_keywords),
      (QUESTION_ANSWERING, question_keywords) ]"

definition first_match_classify :: "pystr \<Rightarrow> TaskType" where
  "first_match_classify text =
    (case find (\<lambda>(ty, kws). any_in kws text) classification_rules of
       Some (ty, kws) \<Rightarrow> ty
     | None \<Rightarrow> GENERAL)"

text \<open>ASCII case folding: what \<open>str.lower\<close> does on strings whose only cased characters
  are ASCII letters.\<close>

definition ascii_lower :: "pystr \<Rightarrow> pystr" where
  "ascii_lower s = map (\<lambda>c. if 65 \<le> c \<and> c \<le> 90 then c + 32 else c) s"

text \<open>Scenario A's task text: bang wo sou suo guan yu transformer de lun wen.\<close>

definition scenario_a_task :: pystr where
  "scenario_a_task =
    [24110, 25105, 25628, 32034, 20851, 20110, 32] @ ascii ''transformer'' @
    [32, 30340, 35770, 25991]"

section \<open>Result bags and plans\<close>

text \<open>Values the core only stores, forwards or tests for truth.\<close>

datatype pyval =
    PNone
  | PBool bool
  | PInt int
  | PStr pystr
  | PList "pyval list"
  | PDict "(pystr \<times> pyval) list"

fun truthy :: "pyval \<Rightarrow> bool" where
  "truthy PNone = False"
| "truthy (PBool b) = b"
| "truthy (PInt i) = (i \<noteq> 0)"
| "truthy (PStr s) = (s \<noteq> [])"
| "truthy (PList xs) = (xs \<noteq> [])"
| "truthy (PDict kvs) = (kvs \<noteq> [])"

text \<open>
  Dicts whose keys the code reads are records with one optional field per key: \<open>None\<close> is
  an absent key, and each present value has the type the writers of that key give it.
  \<open>d.get(k)\<close> used as a condition is \<open>opt_truthy\<close>; \<open>d.get(k, "")\<close> is \<open>get_str\<close>.
\<close>

definition opt_truthy :: "pyval option \<Rightarrow> bool" where
  "opt_truthy v = (case v of None \<Rightarrow> False | Some x \<Rightarrow> truthy x)"

definition get_str :: "pystr option \<Rightarrow> pystr" where
  "get_str v = (case v of None \<Rightarrow> [] | Some s \<Rightarrow> s)"

record paper =
  p_title :: "pystr option"
  p_abstract :: "pystr option"
  p_url :: "pyval option"
  p_pdf_url :: "pyval option"
  p_citation_count :: "int option"

record research_result =
  rr_papers :: "paper list option"
  rr_other :: "(pystr \<times> pyval) list"

datatype TaskStatus = PENDING | IN_PROGRESS | COMPLETED | FAILED

text \<open>The dict a step handler returns.\<close>

record step_result =
  sr_output_type :: "pystr option"
  sr_result :: "pystr option"
  sr_answer :: "pystr option"
  sr_papers :: "pyval option"
  sr_analysis :: "pyval option"
  sr_schedule_info :: "pyval option"
  sr_schedule :: "pyval option"
  sr_other :: "(pystr \<times> pyval) list"

text \<open>The \<open>output\<close> entry of a plan row: \<open>None\<close>, the handler's dict, \<open>{"error": msg}\<close>, or
  the synthetic \<open>{"answer": text, "output_type": "answer"}\<close> of the question-answering path.\<close>

datatype step_output =
    NoOutput
  | HandlerOutput step_result
  | ErrorOutput pystr
  | AnswerOutput pystr

text \<open>One row of \<open>plan_data\<close> (its constant \<open>steps\<close> entry, an empty list, is left out).\<close>

record plan_entry =
  pe_step_id :: pystr
  pe_name :: pystr
  pe_description :: pystr
  pe_output_type :: pystr
  pe_status :: TaskStatus
  pe_output :: step_output
  pe_result :: "pystr option"

section \<open>Result evaluator (reflection/evaluator.py)\<close>

text \<open>\<open>EvaluationResult\<close> without its \<open>details\<close> dict (a timestamp and the key list).\<close>

record EvaluationResult =
  completeness :: rat
  accuracy :: rat
  usefulness :: rat
  clarity :: rat
  passed :: bool
  feedback :: pystr

definition EvaluationResult_default :: EvaluationResult where
  "EvaluationResult_default =
    \<lparr> completeness = 0, accuracy = 0, usefulness = 0, clarity = 0,
      passed = False, feedback = [] \<rparr>"

definition overall_score :: "EvaluationResult \<Rightarrow> rat" where
  "overall_score e =
    completeness e * 0.3 + accuracy e * 0.3 + usefulness e * 0.25 + clarity e * 0.15"

definition PASS_THRESHOLD :: rat where
  "PASS_THRESHOLD = 0.6"

section \<open>Reflection analyzer data (reflection/analyzer.py)\<close>

record adjusted_params =
  ap_max_papers :: "int option"
  ap_years :: "int option"
  ap_detail_level :: "pystr option"
  ap_other :: "(pystr \<times> pyval) list"

record ReflectionResult =
  failure_reason :: pystr
  failure_type :: pystr
  improvement_suggestions :: "pystr list"
  should_retry :: bool
  should_replan :: bool
  adjusted :: adjusted_params
  confidence :: rat

text \<open>One entry of \<open>reflection_history\<close> and the \<open>reflection\<close> dict written on a result.\<close>

record history_entry =
  h_iteration :: nat
  h_evaluation :: EvaluationResult
  h_reflection :: ReflectionResult

record reflection_info =
  ri_enabled :: bool
  ri_iterations :: nat
  ri_final_score :: rat
  ri_passed :: bool
  ri_history :: "history_entry list"
  ri_message :: "pystr option"

text \<open>Clock readings (\<open>datetime.now().isoformat()\<close>) are kept as a token only.\<close>

datatype timestamp = Timestamp

text \<open>The result dict of \<open>execute_task\<close>: the keys written by the unified agent and the
  reflection wrapper, and the keys the evaluator reads.\<close>

record result_bag =
  k_success :: "bool option"
  k_task :: "pystr option"
  k_started_at :: "timestamp option"
  k_steps :: "pyval list option"
  k_plan :: "plan_entry list option"
  k_final_answer :: "pystr option"
  k_task_type :: "pystr option"
  k_extracted_params :: "(pystr \<times> pyval) list option"
  k_completed_at :: "timestamp option"
  k_is_research_mode :: "bool option"
  k_research_result :: "research_result option"
  k_papers :: "paper list option"
  k_schedule_info :: "pyval option"
  k_reminder :: "pyval option"
  k_experiments :: "pyval option"
  k_experiment_result :: "pyval option"
  k_statistics :: "pyval option"
  k_reflection :: "reflection_info option"

definition empty_result :: result_bag where
  "empty_result =
    \<lparr> k_success = None, k_task = None, k_started_at = None, k_steps = None, k_plan = None,
      k_final_answer = None, k_task_type = None, k_extracted_params = None,
      k_completed_at = None, k_is_research_mode = None, k_research_result = None,
      k_papers = None, k_schedule_info = None, k_reminder = None, k_experiments = None,
      k_experiment_result = None, k_statistics = None, k_reflection = None \<rparr>"

text \<open>\<open>not result\<close>: the dict has no key.\<close>

definition is_empty :: "result_bag \<Rightarrow> bool" where
  "is_empty r = (r = empty_result)"

section \<open>Heuristic sub-scores (reflection/evaluator.py)\<close>

text \<open>\<open>s.count(sub)\<close> for a non-empty \<open>sub\<close>: occurrences counted from the left without
  overlap (\<open>skip\<close> is the number of characters of the last occurrence still to pass).\<close>

fun count_from :: "pystr \<Rightarrow> nat \<Rightarrow> pystr \<Rightarrow> nat" where
  "count_from sub skip [] = 0"
| "count_from sub skip (c # cs) =
    (if 0 < skip then count_from sub (skip - 1) cs
     else if prefix sub (c # cs) then Suc (count_from sub (length sub - 1) cs)
     else count_from sub 0 cs)"

definition py_count :: "pystr \<Rightarrow> pystr \<Rightarrow> nat" where
  "py_count s sub = count_from sub 0 s"

text \<open>\<open>len(s.split(sep))\<close>: one piece more than there are separators.\<close>

definition split_len :: "pystr \<Rightarrow> pystr \<Rightarrow> nat" where
  "split_len s sep = Suc (py_count s sep)"

text \<open>\<open>re.findall\<close> with the keyword pattern (one or more characters in U+4E00..U+9FA5, or
  two or more ASCII letters): the maximal runs of CJK ideographs, and the maximal runs of ASCII letters that have at least two letters.\<close>

definition is_cjk :: "nat \<Rightarrow> bool" where
  "is_cjk c = (19968 \<le> c \<and> c \<le> 40869)"

definition is_ascii_letter :: "nat \<Rightarrow> bool" where
  "is_ascii_letter c = ((65 \<le> c \<and> c \<le> 90) \<or> (97 \<le> c \<and> c \<le> 122))"

function findall_keywords :: "pystr \<Rightarrow> pystr list" where
  "findall_keywords [] = []"
| "findall_keywords (c # cs) =
    (if is_cjk c
       then takeWhile is_cjk (c # cs) # findall_keywords (dropWhile is_cjk cs)
     else if is_ascii_letter c
       then (if 2 \<le> length (takeWhile is_ascii_letter (c # cs))
               then [takeWhile is_ascii_letter (c # cs)] else [])
            @ findall_keywords (dropWhile is_ascii_letter cs)
     else findall_keywords cs)"
  by pat_completeness auto
termination
  by (relation "measure length") (auto simp: less_Suc_eq_le length_dropWhile_le)

text \<open>The paper list both literature branches read:
  \<open>result.get("research_result", {}).get("papers", [])\<close>, replaced by
  \<open>result.get("papers", [])\<close> when empty.\<close>

definition get_list :: "'a list option \<Rightarrow> 'a list" where
  "get_list v = (case v of None \<Rightarrow> [] | Some xs \<Rightarrow> xs)"

definition result_papers :: "result_bag \<Rightarrow> paper list" where
  "result_papers result =
    (let papers = (case k_research_result result of
                     None \<Rightarrow> []
                   | Some rr \<Rightarrow> get_list (rr_papers rr))
     in if papers = [] then get_list (k_papers result) else papers)"

definition str_truthy :: "pystr option \<Rightarrow> bool" where
  "str_truthy v = (get_str v \<noteq> [])"

definition evaluate_completeness :: "pystr \<Rightarrow> result_bag \<Rightarrow> pystr \<Rightarrow> rat" where
  "evaluate_completeness task result task_type =
    (if is_empty result then 0
     else
       let score =
        (if task_type = ascii ''literature_research'' then
           (let papers = result_papers result in
            if papers \<noteq> [] then
              0.4
              + (if 5 \<le> length papers then 0.3 else 0)
              + (if list_all (\<lambda>p. str_truthy (p_title p)) papers then 0.2 else 0)
              + (if list_all (\<lambda>p. str_truthy (p_abstract p)) papers then 0.1 else 0)
            else
              (let final_answer = get_str (k_final_answer result) in
               if final_answer \<noteq> [] \<and> 100 < length final_answer then 0.5 else 0))
         else if task_type = ascii ''question_answering'' then
           (let answer = get_str (k_final_answer result) in
            if answer \<noteq> [] then
              0.3
              + (if 50 \<le> length answer then 0.4 else 0)
              + (if 200 \<le> length answer then 0.3 else 0)
            else 0)
         else if task_type = ascii ''schedule_planning'' then
           (if opt_truthy (k_schedule_info result) \<or> opt_truthy (k_reminder result)
              then 0.5 else 0)
           + (if str_truthy (k_final_answer result) then 0.3 else 0)
           + (if sublist [25104, 21151] (get_str (k_final_answer result)) then 0.2 else 0)
         else if task_type = ascii ''experiment_management'' then
           (if opt_truthy (k_experiments result) \<or> opt_truthy (k_experiment_result result)
              then 0.5 else 0)
           + (if str_truthy (k_final_answer result) then 0.3 else 0)
           + (if opt_truthy (k_statistics result) then 0.2 else 0)
         else
           (if str_truthy (k_final_answer result)
              then 0.5 + (if 50 < length (get_str (k_final_answer result)) then 0.3 else 0)
              else 0)
           + (if get_list (k_plan result) \<noteq> [] \<and> 0 < length (get_list (k_plan result))
                then 0.2 else 0))
       in min 1 score)"

text \<open>The number of the first ten papers whose lower-cased title or abstract contains a
  lower-cased keyword of the task.\<close>

definition relevant_count :: "(pystr \<Rightarrow> pystr) \<Rightarrow> pystr list \<Rightarrow> paper list \<Rightarrow> nat" where
  "relevant_count lower keywords papers =
    length (filter
      (\<lambda>paper.
         let title = lower (get_str (p_title paper));
             abstract = lower (get_str (p_abstract paper))
         in list_ex (\<lambda>kw. sublist (lower kw) title \<or> sublist (lower kw) abstract) keywords)
      (take 10 papers))"

definition evaluate_accuracy ::
  "(pystr \<Rightarrow> pystr) \<Rightarrow> pystr \<Rightarrow> result_bag \<Rightarrow> pystr \<Rightarrow> rat" where
  "evaluate_accuracy lower task result task_type =
    (if is_empty result then 0
     else
       let score =
        (if task_type = ascii ''literature_research'' then
           (let papers = result_papers result in
            if papers \<noteq> [] then
              (let keywords = findall_keywords task;
                   relevance_ratio =
                     of_nat (relevant_count lower keywords papers)
                       / of_nat (min (length papers) 10)
               in 0.5 + relevance_ratio * 0.5)
            else 0.7)
         else if task_type = ascii ''question_answering'' then
           (let answer = get_str (k_final_answer result) in
            if answer \<noteq> [] then
              (if sublist [25265, 27465] answer \<or> sublist [26080, 27861] answer
                  \<or> sublist [38169, 35823] answer then 0.3
               else if 100 < length answer then 0.8
               else 0.6)
            else 0.7)
         else 0.7)
       in min 1 score)"

definition evaluate_usefulness ::
  "(pystr \<Rightarrow> pystr) \<Rightarrow> pystr \<Rightarrow> result_bag \<Rightarrow> pystr \<Rightarrow> rat" where
  "evaluate_usefulness lower task result task_type =
    (if is_empty result then 0
     else
       let score =
        (if task_type = ascii ''literature_research'' then
           (let papers = result_papers result in
            if papers \<noteq> [] then
              0.5
              + (if list_ex (\<lambda>p. opt_truthy (p_url p)) papers then 0.2 else 0)
              + (if list_ex (\<lambda>p. opt_truthy (p_pdf_url p)) papers then 0.1 else 0)
              + (if list_ex (\<lambda>p. 0 < (case p_citation_count p of None \<Rightarrow> 0 | Some n \<Rightarrow> n))
                      papers then 0.1 else 0)
              + (if list_ex (\<lambda>p. str_truthy (p_abstract p)) papers then 0.1 else 0)
            else 0.5)
         else if task_type = ascii ''question_answering'' then
           (let answer = get_str (k_final_answer result) in
            0.5
            + (if sublist (ascii ''```'') answer then 0.2 else 0)
            + (if 3 < py_count answer [10] then 0.1 else 0)
            + (if any_in [ascii ''1.'', ascii ''2.'', [8226], ascii ''-'', [31532, 19968]]
                    answer then 0.1 else 0)
            + (if sublist [20363, 22914] answer \<or> sublist [27604, 22914] answer
                  \<or> sublist (ascii ''example'') (lower answer) then 0.1 else 0))
         else 0.5)
       in min 1 score)"

definition evaluate_clarity :: "pystr \<Rightarrow> result_bag \<Rightarrow> rat" where
  "evaluate_clarity task result =
    (if is_empty result then 0
     else
       let answer = get_str (k_final_answer result) in
       if answer = [] then 0.5
       else
         let score =
           0.5
           + (if 50 < length answer then 0.1 else 0)
           + (if 200 < length answer then 0.1 else 0)
           + (if 1 < split_len answer [10, 10] then 0.1 else 0)
           + (if sublist (ascii ''```'') answer then 0.1 else 0)
           + (if 0 < py_count answer (ascii ''##'') then 0.1 else 0)
         in min 1 score)"

section \<open>Oracle pass and \<open>evaluate\<close> (reflection/evaluator.py)\<close>

text \<open>
  What one call of \<open>_llm_evaluate\<close> meets inside its \<open>try\<close>: an exception (from the
  request, \<open>json.loads\<close> or \<open>float\<close>), a reply with no \<open>{...}\<close> in it, or a JSON object,
  of which the five keys read are kept (\<open>None\<close>: key absent).
\<close>

record eval_json =
  j_completeness :: "rat option"
  j_accuracy :: "rat option"
  j_usefulness :: "rat option"
  j_clarity :: "rat option"
  j_feedback :: "pystr option"

datatype eval_reply = EvalRaises | EvalNoJson | EvalJson eval_json

definition get_score :: "rat option \<Rightarrow> rat" where
  "get_score v = (case v of None \<Rightarrow> 0.5 | Some x \<Rightarrow> x)"

definition llm_evaluate :: "eval_reply option \<Rightarrow> EvaluationResult" where
  "llm_evaluate client =
    (case client of
       None \<Rightarrow> EvaluationResult_default
     | Some EvalRaises \<Rightarrow> EvaluationResult_default
     | Some EvalNoJson \<Rightarrow> EvaluationResult_default
     | Some (EvalJson data) \<Rightarrow>
         EvaluationResult_default
           \<lparr> completeness := get_score (j_completeness data),
             accuracy := get_score (j_accuracy data),
             usefulness := get_score (j_usefulness data),
             clarity := get_score (j_clarity data),
             feedback := get_str (j_feedback data) \<rparr>)"

text \<open>\<open>sep.join(parts)\<close>.\<close>

fun join :: "pystr \<Rightarrow> pystr list \<Rightarrow> pystr" where
  "join sep [] = []"
| "join sep [x] = x"
| "join sep (x # y # ys) = x @ sep @ join sep (y # ys)"

definition generate_feedback :: "EvaluationResult \<Rightarrow> pystr \<Rightarrow> pystr" where
  "generate_feedback evaluation task_type =
    (let feedback_parts =
       (if completeness evaluation < 0.5
          then [[32467, 26524, 19981, 22815, 23436, 25972]]
        else if completeness evaluation < 0.7
          then [[32467, 26524, 22522, 26412, 23436, 25972, 20294, 21487, 20197, 26356,
                 35814, 32454]]
        else [])
       @ (if accuracy evaluation < 0.5
            then [[32467, 26524, 20934, 30830, 24615, 38656, 35201, 25552, 39640]] else [])
       @ (if usefulness evaluation < 0.5
            then [[32467, 26524, 30340, 23454, 29992, 24615, 26377, 24453, 21152, 24378]]
          else [])
       @ (if clarity evaluation < 0.5
            then [[32467, 26524, 34920, 36798, 21487, 20197, 26356, 28165, 26224]] else [])
     in if feedback_parts = [] then [32467, 26524, 36136, 37327, 33391, 22909]
        else join [65307] feedback_parts)"

text \<open>
  \<open>ResultEvaluator.evaluate\<close>.  \<open>client\<close> is \<open>None\<close> when the evaluator has no oracle, and
  otherwise what this call's oracle request meets.
\<close>

definition evaluate ::
  "(pystr \<Rightarrow> pystr) \<Rightarrow> eval_reply option \<Rightarrow> pystr \<Rightarrow> result_bag \<Rightarrow> pystr
     \<Rightarrow> EvaluationResult" where
  "evaluate lower client task result task_type =
    (let evaluation = EvaluationResult_default
           \<lparr> completeness := evaluate_completeness task result task_type,
             accuracy := evaluate_accuracy lower task result task_type,
             usefulness := evaluate_usefulness lower task result task_type,
             clarity := evaluate_clarity task result \<rparr>;
         evaluation =
           (case client of
              None \<Rightarrow> evaluation
            | Some reply \<Rightarrow>
                (let llm_evaluation = llm_evaluate client in
                 evaluation
                   \<lparr> completeness :=
                       (completeness evaluation + completeness llm_evaluation) / 2,
                     accuracy := (accuracy evaluation + accuracy llm_evaluation) / 2,
                     usefulness := (usefulness evaluation + usefulness llm_evaluation) / 2,
                     clarity := (clarity evaluation + clarity llm_evaluation) / 2,
                     feedback :=
                       (if feedback llm_evaluation \<noteq> [] then feedback llm_evaluation
                        else feedback evaluation) \<rparr>));
         evaluation = evaluation \<lparr> passed := (PASS_THRESHOLD \<le> overall_score evaluation) \<rparr>
     in if feedback evaluation = []
          then evaluation \<lparr> feedback := generate_feedback evaluation task_type \<rparr>
        else evaluation)"

section \<open>Reflection analyzer (reflection/analyzer.py)\<close>

definition adjusted_params_empty :: adjusted_params where
  "adjusted_params_empty =
    \<lparr> ap_max_papers = None, ap_years = None, ap_detail_level = None, ap_other = [] \<rparr>"

definition ReflectionResult_default :: ReflectionResult where
  "ReflectionResult_default =
    \<lparr> failure_reason = [], failure_type = [], improvement_suggestions = [],
      should_retry = False, should_replan = False, adjusted = adjusted_params_empty,
      confidence = 0.5 \<rparr>"

text \<open>The failure-indicating texts searched in the final answer: cuo wu, shi bai,
  yi chang, error, failed.\<close>

definition failure_markers :: "pystr list" where
  "failure_markers =
    [ [38169, 35823], [22833, 36133], [24322, 24120], ascii ''error'', ascii ''failed'' ]"

definition classify_failure :: "result_bag \<Rightarrow> EvaluationResult \<Rightarrow> pystr \<Rightarrow> pystr" where
  "classify_failure result evaluation task_type =
    (if is_empty result then ascii ''no_results''
     else if completeness evaluation < 0.4 then ascii ''incomplete_results''
     else if accuracy evaluation < 0.4 then ascii ''irrelevant_results''
     else if any_in failure_markers (get_str (k_final_answer result)) then ascii ''api_error''
     else if completeness evaluation < 0.6 \<or> accuracy evaluation < 0.6
       then ascii ''incomplete_results''
     else ascii ''unknown'')"

definition get_rule_based_suggestions ::
  "pystr \<Rightarrow> pystr \<Rightarrow> result_bag \<Rightarrow> pystr \<Rightarrow> pystr list" where
  "get_rule_based_suggestions ftype task result task_type =
    (if ftype = ascii ''no_results'' then
       [ [23581, 35797, 20351, 29992, 19981, 21516, 30340, 25628, 32034, 20851, 38190, 35789],
         [25193, 22823, 25628, 32034, 33539, 22260],
         [26816, 26597, 26159, 21542, 26377, 25340, 20889, 38169, 35823] ]
     else if ftype = ascii ''incomplete_results'' then
       [ [22686, 21152, 25628, 32034, 32467, 26524, 25968, 37327],
         [34917, 20805, 26356, 22810, 32454, 33410, 20449, 24687],
         [23581, 35797, 26356, 20855, 20307, 30340, 26597, 35810] ]
     else if ftype = ascii ''irrelevant_results'' then
       [ [20248, 21270, 25628, 32034, 20851, 38190, 35789],
         [28155, 21152, 26356, 22810, 38480, 23450, 26465, 20214],
         [23581, 35797, 20351, 29992, 33521, 25991, 20851, 38190, 35789] ]
     else if ftype = ascii ''api_error'' then
       [ [31245, 21518, 37325, 35797],
         [20351, 29992, 22791, 29992, 25968, 25454, 28304],
         [31616, 21270, 35831, 27714, 21442, 25968] ]
     else [ [37325, 26032, 25191, 34892, 20219, 21153] ])"

definition should_retry_rule :: "pystr \<Rightarrow> bool" where
  "should_retry_rule ftype =
    (ftype \<in> set [ascii ''api_error'', ascii ''timeout'', ascii ''no_results''])"

definition should_replan_rule :: "pystr \<Rightarrow> bool" where
  "should_replan_rule ftype =
    (ftype \<in> set [ascii ''irrelevant_results'', ascii ''invalid_params''])"

definition get_adjusted_params :: "pystr \<Rightarrow> result_bag \<Rightarrow> pystr \<Rightarrow> adjusted_params" where
  "get_adjusted_params task result task_type =
    (if task_type = ascii ''literature_research'' then
       (let papers = (case k_research_result result of
                        None \<Rightarrow> []
                      | Some rr \<Rightarrow> get_list (rr_papers rr))
        in adjusted_params_empty
             \<lparr> ap_max_papers := Some (if papers \<noteq> [] \<and> length papers < 5 then 100 else 50),
               ap_years := Some 3 \<rparr>)
     else if task_type = ascii ''question_answering'' then
       adjusted_params_empty \<lparr> ap_detail_level := Some (ascii ''high'') \<rparr>
     else adjusted_params_empty)"

text \<open>What one call of \<open>_llm_analyze\<close> meets, as for the evaluator.\<close>

record analyze_json =
  a_failure_reason :: "pystr option"
  a_improvement_suggestions :: "pystr list option"
  a_should_retry :: "bool option"
  a_should_replan :: "bool option"
  a_adjusted_params :: "adjusted_params option"
  a_confidence :: "rat option"

datatype analyze_reply = AnalyzeRaises | AnalyzeNoJson | AnalyzeJson analyze_json

definition llm_analyze :: "analyze_reply option \<Rightarrow> ReflectionResult" where
  "llm_analyze client =
    (case client of
       None \<Rightarrow> ReflectionResult_default
     | Some AnalyzeRaises \<Rightarrow> ReflectionResult_default
     | Some AnalyzeNoJson \<Rightarrow> ReflectionResult_default
     | Some (AnalyzeJson data) \<Rightarrow>
         \<lparr> failure_reason = get_str (a_failure_reason data),
           failure_type = [],
           improvement_suggestions = get_list (a_improvement_suggestions data),
           should_retry = (case a_should_retry data of None \<Rightarrow> False | Some b \<Rightarrow> b),
           should_replan = (case a_should_replan data of None \<Rightarrow> False | Some b \<Rightarrow> b),
           adjusted = (case a_adjusted_params data of
                         None \<Rightarrow> adjusted_params_empty | Some ps \<Rightarrow> ps),
           confidence = get_score (a_confidence data) \<rparr>)"

definition analyze ::
  "analyze_reply option \<Rightarrow> pystr \<Rightarrow> result_bag \<Rightarrow> EvaluationResult \<Rightarrow> pystr
     \<Rightarrow> ReflectionResult" where
  "analyze client task result evaluation task_type =
    (if 0.6 \<le> overall_score evaluation then ReflectionResult_default
     else
       let reflection = ReflectionResult_default
             \<lparr> failure_reason := feedback evaluation,
               failure_type := classify_failure result evaluation task_type \<rparr>;
           rule_based_suggestions =
             get_rule_based_suggestions (failure_type reflection) task result task_type
       in case client of
            Some reply \<Rightarrow>
              (let llm_reflection = llm_analyze client in
               reflection
                 \<lparr> failure_reason :=
                     (if failure_reason llm_reflection \<noteq> [] then failure_reason llm_reflection
                      else failure_reason reflection),
                   improvement_suggestions :=
                     (if improvement_suggestions llm_reflection \<noteq> []
                        then improvement_suggestions llm_reflection
                      else rule_based_suggestions),
                   should_retry := should_retry llm_reflection,
                   should_replan := should_replan llm_reflection,
                   adjusted := adjusted llm_reflection,
                   confidence := confidence llm_reflection \<rparr>)
          | None \<Rightarrow>
              reflection
                \<lparr> improvement_suggestions := rule_based_suggestions,
                  should_retry := should_retry_rule (failure_type reflection),
                  should_replan := should_replan_rule (failure_type reflection),
                  adjusted := get_adjusted_params task result task_type \<rparr>)"

text \<open>The ordered classification in the words of the specification: the rules in the
  order they are tried, each a condition with the failure type it assigns.\<close>

definition failure_rules :: "result_bag \<Rightarrow> EvaluationResult \<Rightarrow> (bool \<times> pystr) list" where
  "failure_rules result evaluation =
    [ (is_empty result, ascii ''no_results''),
      (completeness evaluation < 0.4, ascii ''incomplete_results''),
      (accuracy evaluation < 0.4, ascii ''irrelevant_results''),
      (any_in failure_markers (get_str (k_final_answer result)), ascii ''api_error''),
      (completeness evaluation < 0.6 \<or> accuracy evaluation < 0.6,
         ascii ''incomplete_results'') ]"

definition first_failure_rule :: "result_bag \<Rightarrow> EvaluationResult \<Rightarrow> pystr" where
  "first_failure_rule result evaluation =
    (case find fst (failure_rules result evaluation) of
       Some (c, ftype) \<Rightarrow> ftype
     | None \<Rightarrow> ascii ''unknown'')"

section \<open>Plan adjuster (reflection/adjuster.py)\<close>

text \<open>\<open>str(n)\<close> for integers, as the f-strings render them.\<close>

function str_of_nat :: "nat \<Rightarrow> pystr" where
  "str_of_nat n = (if n < 10 then [48 + n] else str_of_nat (n div 10) @ [48 + n mod 10])"
  by pat_completeness auto
termination
  by (relation "measure id") auto

declare str_of_nat.simps [simp del]






section \<open>Reflection loop controller (reflection/wrapper.py)\<close>

type_synonym context_dict = "pystr \<rightharpoonup> pyval"


text \<open>
  The oracle shared by evaluator and analyzer, as what its \<open>n\<close>-th evaluation request and
  its \<open>n\<close>-th analysis request meet.  The base agent is any function of the call number,
  the task text and the context: it need not answer the same input twice alike.
\<close>

record text_oracle =
  eval_reply_at :: "nat \<Rightarrow> eval_reply"
  analyze_reply_at :: "nat \<Rightarrow> analyze_reply"

record ReflectionAgent =
  MAX_ITERATIONS :: nat
  REFLECTION_ENABLED :: bool
  base_agent :: "nat \<Rightarrow> pystr \<Rightarrow> context_dict option \<Rightarrow> result_bag"
  oracle_client :: "text_oracle option"



definition enable_reflection :: "ReflectionAgent \<Rightarrow> bool \<Rightarrow> ReflectionAgent" where
  "enable_reflection agent enabled = agent \<lparr> REFLECTION_ENABLED := enabled \<rparr>"











section \<open>Tool registry and dispatch (tools.py, react.py)\<close>

text \<open>
  The structured result of a tool invocation: the \<open>success\<close>, \<open>message\<close> and \<open>error\<close> keys,
  and whatever else the tool returns.
\<close>

record envelope =
  e_success :: "bool option"
  e_message :: "pystr option"
  e_error :: "pystr option"
  e_other :: "(pystr \<times> pyval) list"

type_synonym tool_args = "(pystr \<times> pyval) list"

text \<open>
  What one invocation of a registered tool does.  A tool is a function of the number of
  invocations it has seen and of its arguments, so it can fail now and succeed later.
  Synchronous tools return strings, as every tool registered in \<open>TOOLS\<close> does.
\<close>

datatype async_outcome = AsyncRaises pystr | AsyncReturns envelope

datatype sync_outcome = SyncRaises pystr | SyncReturns pystr

record registry =
  TOOLS :: "pystr \<rightharpoonup> (nat \<Rightarrow> tool_args \<Rightarrow> sync_outcome)"
  ASYNC_TOOLS :: "pystr \<rightharpoonup> (nat \<Rightarrow> tool_args \<Rightarrow> async_outcome)"

definition is_async_tool :: "registry \<Rightarrow> pystr \<Rightarrow> bool" where
  "is_async_tool reg tool_name = (tool_name \<in> dom (ASYNC_TOOLS reg))"

text \<open>\<open>execute_async_tool\<close>; \<open>n\<close> is the number of earlier invocations of the tool.\<close>

definition execute_async_tool :: "registry \<Rightarrow> nat \<Rightarrow> pystr \<Rightarrow> tool_args \<Rightarrow> envelope" where
  "execute_async_tool reg n tool_name arguments =
    (case ASYNC_TOOLS reg tool_name of
       Some tool \<Rightarrow>
         (case tool n arguments of
            AsyncReturns result \<Rightarrow> result
          | AsyncRaises e \<Rightarrow>
              \<lparr> e_success = Some False, e_message = None,
                e_error = Some ([24322, 27493, 24037, 20855, 25191, 34892, 38169, 35823, 58, 32]
                                @ e),
                e_other = [] \<rparr>)
     | None \<Rightarrow>
         (case TOOLS reg tool_name of
            Some tool \<Rightarrow>
              (case tool n arguments of
                 SyncReturns result \<Rightarrow>
                   \<lparr> e_success = Some True, e_message = Some result, e_error = None,
                     e_other = [] \<rparr>
               | SyncRaises e \<Rightarrow>
                   \<lparr> e_success = Some False, e_message = None,
                     e_error = Some ([24037, 20855, 25191, 34892, 38169, 35823, 58, 32] @ e),
                     e_other = [] \<rparr>)
          | None \<Rightarrow>
              \<lparr> e_success = Some False, e_message = None,
                e_error = Some ([38169, 35823, 65306, 26410, 30693, 24037, 20855, 32, 39]
                                @ tool_name @ [39]),
                e_other = [] \<rparr>))"

definition execute_tool :: "registry \<Rightarrow> nat \<Rightarrow> pystr \<Rightarrow> tool_args \<Rightarrow> pystr" where
  "execute_tool reg n tool_name arguments =
    (case TOOLS reg tool_name of
       Some tool \<Rightarrow>
         (case tool n arguments of
            SyncReturns result \<Rightarrow> result
          | SyncRaises e \<Rightarrow> [24037, 20855, 25191, 34892, 38169, 35823, 58, 32] @ e)
     | None \<Rightarrow>
         [38169, 35823, 65306, 26410, 30693, 24037, 20855, 32, 39] @ tool_name @ [39])"

text \<open>
  The retry loop of \<open>ReActAgent.run\<close> around one tool call.  \<open>body k\<close> is what the \<open>try\<close>
  block does when \<open>retry_count = k\<close>: it raises (\<open>Inl\<close> the message) or assigns
  \<open>observation_result\<close>.  The loop returns \<open>observation_result\<close> (\<open>None\<close> when every try
  raised), the final \<open>retry_count\<close> and \<open>last_error\<close>.
\<close>

function retry_loop ::
  "nat \<Rightarrow> (nat \<Rightarrow> pystr + envelope) \<Rightarrow> nat \<Rightarrow> pystr option
     \<Rightarrow> envelope option \<times> nat \<times> pystr option" where
  "retry_loop max_retries body retry_count last_error =
    (if retry_count \<le> max_retries then
       (case body retry_count of
          Inr observation_result \<Rightarrow> (Some observation_result, retry_count, last_error)
        | Inl e \<Rightarrow> retry_loop max_retries body (Suc retry_count) (Some e))
     else (None, retry_count, last_error))"
  by pat_completeness auto
termination
  by (relation "measure (\<lambda>(m, b, rc, le). Suc m - rc)") auto

declare retry_loop.simps [simp del]

text \<open>The \<open>try\<close> block: both dispatch functions catch the tool's exceptions themselves and
  return normally, so the block never raises.  The tool is invoked once per try.\<close>

definition tool_try_body :: "registry \<Rightarrow> pystr \<Rightarrow> tool_args \<Rightarrow> nat \<Rightarrow> pystr + envelope" where
  "tool_try_body reg tool_name tool_args k =
    (if is_async_tool reg tool_name
       then Inr (execute_async_tool reg k tool_name tool_args)
     else Inr \<lparr> e_success = Some True,
                e_message = Some (execute_tool reg k tool_name tool_args),
                e_error = None, e_other = [] \<rparr>)"

text \<open>One tool call of \<open>ReActAgent.run\<close>: the observation result and the number of retries
  made for it.\<close>

definition run_tool_call ::
  "nat \<Rightarrow> registry \<Rightarrow> pystr \<Rightarrow> tool_args \<Rightarrow> envelope \<times> nat" where
  "run_tool_call max_retries reg tool_name tool_args =
    (case retry_loop max_retries (tool_try_body reg tool_name tool_args) 0 None of
       (Some observation_result, retry_count, last_error) \<Rightarrow>
         (observation_result, retry_count)
     | (None, retry_count, last_error) \<Rightarrow>
         (\<lparr> e_success = Some False, e_message = None,
            e_error = Some ([24037, 20855, 25191, 34892, 22833, 36133, 65288, 37325, 35797]
                            @ str_of_nat max_retries @ [27425, 21518, 65289, 58, 32]
                            @ (case last_error of None \<Rightarrow> ascii ''None'' | Some e \<Rightarrow> e)),
            e_other = [] \<rparr>,
          retry_count))"

text \<open>\<open>ReActAgent.max_retries\<close>.\<close>

definition max_retries_default :: nat where
  "max_retries_default = 2"

text \<open>Scenario C's tool: an async tool that raises on its first two invocations and
  returns a success envelope on the third.\<close>

definition scenario_c_success :: envelope where
  "scenario_c_success =
    \<lparr> e_success = Some True, e_message = Some (ascii ''done''), e_error = None,
      e_other = [] \<rparr>"

definition flaky_tool :: "nat \<Rightarrow> tool_args \<Rightarrow> async_outcome" where
  "flaky_tool n arguments =
    (if n < 2 then AsyncRaises (ascii ''boom'') else AsyncReturns scenario_c_success)"

definition scenario_c_registry :: registry where
  "scenario_c_registry =
    \<lparr> TOOLS = Map.empty, ASYNC_TOOLS = [ascii ''flaky'' \<mapsto> flaky_tool] \<rparr>"

section \<open>Task analysis and plan generation (unified\_agent.py)\<close>

record PlanStep =
  ps_step_id :: pystr
  ps_name :: pystr
  ps_description :: pystr
  ps_output_type :: pystr
  ps_status :: TaskStatus
  ps_start_time :: "timestamp option"
  ps_end_time :: "timestamp option"

text \<open>\<open>PlanStep.__init__\<close>: a new step is pending and has no start or end time.\<close>

definition PlanStep_init :: "pystr \<Rightarrow> pystr \<Rightarrow> pystr \<Rightarrow> pystr \<Rightarrow> PlanStep" where
  "PlanStep_init sid nm descr otype =
    \<lparr> ps_step_id = sid, ps_name = nm, ps_description = descr, ps_output_type = otype,
      ps_status = PENDING, ps_start_time = None, ps_end_time = None \<rparr>"

text \<open>\<open>_get_plan_for_type\<close>: the fixed three-step template of each task type.\<close>

definition get_plan_for_type :: "TaskType \<Rightarrow> pystr \<Rightarrow> PlanStep list" where
  "get_plan_for_type task_type task =
    (case task_type of
       LITERATURE_RESEARCH \<Rightarrow>
       [ PlanStep_init (ascii ''search'')
           [25628, 32034, 30456, 20851, 25991, 29486]
           [26681, 25454, 20851, 38190, 35789, 25628, 32034, 23398, 26415, 35770, 25991]
           (ascii ''paper_list''),
         PlanStep_init (ascii ''analyze'')
           [20998, 26512, 25991, 29486, 20869, 23481]
           [20998, 26512, 25628, 32034, 21040, 30340, 25991, 29486, 65292, 25552, 21462, 20851,
            38190, 20449, 24687]
           (ascii ''analysis''),
         PlanStep_init (ascii ''summarize'')
           [29983, 25104, 35843, 30740, 25253, 21578]
           [24635, 32467, 25991, 29486, 35843, 30740, 32467, 26524]
           (ascii ''report'') ]
     | SCHEDULE_PLANNING \<Rightarrow>
       [ PlanStep_init (ascii ''parse'')
           [35299, 26512, 26102, 38388, 38656, 27714]
           [25552, 21462, 26085, 31243, 26102, 38388, 21644, 20869, 23481]
           (ascii ''schedule_info''),
         PlanStep_init (ascii ''create'')
           [21019, 24314, 26085, 31243, 23433, 25490]
           [29983, 25104, 26085, 31243, 23433, 25490, 26041, 26696]
           (ascii ''schedule''),
         PlanStep_init (ascii ''remind'')
           [35774, 32622, 25552, 37266]
           [35774, 32622, 26085, 31243, 25552, 37266]
           (ascii ''reminder'') ]
     | EXPERIMENT_MANAGEMENT \<Rightarrow>
       [ PlanStep_init (ascii ''analyze_request'')
           [20998, 26512, 25968, 25454, 38656, 27714]
           [29702, 35299, 25968, 25454, 20998, 26512, 38656, 27714]
           (ascii ''analysis''),
         PlanStep_init (ascii ''generate_stats'')
           [29983, 25104, 32479, 35745, 25968, 25454]
           [29983, 25104, 31034, 20363, 32479, 35745, 25968, 25454]
           (ascii ''statistics''),
         PlanStep_init (ascii ''report'')
           [29983, 25104, 25253, 21578]
           [29983, 25104, 25968, 25454, 20998, 26512, 25253, 21578]
           (ascii ''report'') ]
     | QUESTION_ANSWERING \<Rightarrow>
       [ PlanStep_init (ascii ''understand'')
           [29702, 35299, 38382, 39064]
           [20998, 26512, 38382, 39064, 26680, 24515, 35201, 28857]
           (ascii ''analysis''),
         PlanStep_init (ascii ''research'')
           [26597, 25214, 36164, 26009]
           [25628, 32034, 30456, 20851, 36164, 26009]
           (ascii ''references''),
         PlanStep_init (ascii ''answer'')
           [29983, 25104, 31572, 26696]
           [32452, 32455, 24182, 29983, 25104, 31572, 26696]
           (ascii ''answer'') ]
     | GENERAL \<Rightarrow>
       [ PlanStep_init (ascii ''understand'')
           [29702, 35299, 20219, 21153]
           [20998, 26512, 20219, 21153, 38656, 27714]
           (ascii ''analysis''),
         PlanStep_init (ascii ''execute'')
           [25191, 34892, 20219, 21153]
           [23436, 25104, 20027, 35201, 20219, 21153, 20869, 23481]
           (ascii ''result''),
         PlanStep_init (ascii ''verify'')
           [39564, 35777, 32467, 26524]
           [26816, 26597, 20219, 21153, 23436, 25104, 24773, 20917]
           (ascii ''verification'') ])"

text \<open>One entry of the \<open>plan\<close> list of an analysis, and the analysis dict itself.\<close>

record step_info =
  si_step_id :: "pystr option"
  si_name :: "pystr option"
  si_description :: "pystr option"
  si_output_type :: "pystr option"

record analysis =
  an_task_type :: "pystr option"
  an_intent_summary :: "pystr option"
  an_extracted_params :: "(pystr \<times> pyval) list option"
  an_plan :: "step_info list option"
  an_reasoning :: "pystr option"

definition step_info_of :: "pystr \<Rightarrow> pystr \<Rightarrow> pystr \<Rightarrow> pystr \<Rightarrow> step_info" where
  "step_info_of sid nm descr otype =
    \<lparr> si_step_id = Some sid, si_name = Some nm, si_description = Some descr,
      si_output_type = Some otype \<rparr>"

definition fallback_task_analysis :: "(pystr \<Rightarrow> pystr) \<Rightarrow> pystr \<Rightarrow> analysis" where
  "fallback_task_analysis lower task =
    (let task_lower = lower task in
     if any_in [ [35770, 25991], [25991, 29486], [25628, 32034], [30740, 31350],
                 ascii ''paper'', ascii ''arxiv'' ] task_lower
     then
       \<lparr> an_task_type = Some (ascii ''literature_research''),
         an_intent_summary = Some task,
         an_extracted_params = Some
           [ (ascii ''topic'', PStr task), (ascii ''years'', PInt 2),
             (ascii ''max_papers'', PInt 30), (ascii ''sort_by'', PStr (ascii ''relevance'')) ],
         an_plan = Some
           [ step_info_of (ascii ''search'') [25628, 32034, 30456, 20851, 25991, 29486]
               [26681, 25454, 20851, 38190, 35789, 25628, 32034, 23398, 26415, 35770, 25991]
               (ascii ''paper_list''),
             step_info_of (ascii ''analyze'') [20998, 26512, 25991, 29486, 20869, 23481]
               [20998, 26512, 25628, 32034, 21040, 30340, 25991, 29486] (ascii ''analysis''),
             step_info_of (ascii ''summarize'') [29983, 25104, 35843, 30740, 25253, 21578]
               [24635, 32467, 25991, 29486, 35843, 30740, 32467, 26524] (ascii ''report'') ],
         an_reasoning = None \<rparr>
     else
       \<lparr> an_task_type = Some (ascii ''general''),
         an_intent_summary = Some task,
         an_extracted_params = Some [],
         an_plan = Some
           [ step_info_of (ascii ''execute'') [25191, 34892, 20219, 21153]
               [23436, 25104, 29992, 25143, 35831, 27714] (ascii ''result'') ],
         an_reasoning = None \<rparr>)"

text \<open>
  \<open>_analyze_task_with_llm\<close>: without a client the fallback; otherwise the JSON object
  found in the oracle's reply, or the fallback when there is none or it does not parse.
\<close>

datatype analysis_reply = AnalysisUnparsable | AnalysisJson analysis

definition analyze_task_with_llm ::
  "(pystr \<Rightarrow> pystr) \<Rightarrow> analysis_reply option \<Rightarrow> pystr \<Rightarrow> analysis" where
  "analyze_task_with_llm lower client task =
    (case client of
       None \<Rightarrow> fallback_task_analysis lower task
     | Some AnalysisUnparsable \<Rightarrow> fallback_task_analysis lower task
     | Some (AnalysisJson a) \<Rightarrow> a)"

text \<open>The task type \<open>execute_task\<close> derives from the analysis' \<open>task_type\<close> string.\<close>

definition task_type_of :: "(pystr \<Rightarrow> pystr) \<Rightarrow> analysis \<Rightarrow> TaskType" where
  "task_type_of lower a =
    (let task_type_str = (case an_task_type a of None \<Rightarrow> ascii ''general'' | Some t \<Rightarrow> t) in
     if sublist (ascii ''literature'') (lower task_type_str) then LITERATURE_RESEARCH
     else if sublist (ascii ''schedule'') (lower task_type_str) then SCHEDULE_PLANNING
     else if sublist (ascii ''experiment'') (lower task_type_str) then EXPERIMENT_MANAGEMENT
     else if sublist (ascii ''question'') (lower task_type_str) then QUESTION_ANSWERING
     else GENERAL)"

definition task_type_value :: "TaskType \<Rightarrow> pystr" where
  "task_type_value t =
    (case t of
       QUESTION_ANSWERING \<Rightarrow> ascii ''question_answering''
     | LITERATURE_RESEARCH \<Rightarrow> ascii ''literature_research''
     | SCHEDULE_PLANNING \<Rightarrow> ascii ''schedule_planning''
     | EXPERIMENT_MANAGEMENT \<Rightarrow> ascii ''experiment_management''
     | GENERAL \<Rightarrow> ascii ''general'')"

text \<open>
  The plan generator inside \<open>execute_task\<close>: a non-empty \<open>llm_plan\<close> is turned into steps
  one by one (\<open>acc\<close> is \<open>plan_steps\<close> so far, whose length names a step without id);
  an empty one gives the template.
\<close>

fun steps_of_llm_plan :: "PlanStep list \<Rightarrow> step_info list \<Rightarrow> PlanStep list" where
  "steps_of_llm_plan acc [] = acc"
| "steps_of_llm_plan acc (step_info # rest) =
    steps_of_llm_plan
      (acc @ [PlanStep_init
                (case si_step_id step_info of
                   None \<Rightarrow> ascii ''step_'' @ str_of_nat (length acc) | Some x \<Rightarrow> x)
                (case si_name step_info of
                   None \<Rightarrow> [25191, 34892, 27493, 39588] | Some x \<Rightarrow> x)
                (case si_description step_info of None \<Rightarrow> [] | Some x \<Rightarrow> x)
                (case si_output_type step_info of None \<Rightarrow> ascii ''result'' | Some x \<Rightarrow> x)])
      rest"

definition make_plan_steps :: "step_info list \<Rightarrow> TaskType \<Rightarrow> pystr \<Rightarrow> PlanStep list" where
  "make_plan_steps llm_plan task_type task =
    (if llm_plan \<noteq> [] then steps_of_llm_plan [] llm_plan
     else get_plan_for_type task_type task)"

section \<open>Step executor (unified\_agent.py)\<close>

text \<open>
  What \<open>_execute_step\<close> does for one step: it raises an exception with a message, or
  returns the handler's dict.  Handlers call the oracle and external services, so the
  executor is modelled over an arbitrary handler, a function of the step's position, the
  step, the task, the task type and the context; it returns the context as it left it.
\<close>

datatype handler_outcome = HandlerRaises pystr | HandlerReturns step_result

type_synonym step_handler =
  "nat \<Rightarrow> PlanStep \<Rightarrow> pystr \<Rightarrow> TaskType \<Rightarrow> context_dict \<Rightarrow> handler_outcome \<times> context_dict"

text \<open>
  Every assignment to a status, in program order: to the \<open>status\<close> attribute of the
  \<open>i\<close>-th \<open>PlanStep\<close> object, or to the \<open>status\<close> entry of the \<open>i\<close>-th row of \<open>plan_data\<close>.
\<close>

datatype status_holder = StepObject | PlanRow

type_synonym status_event = "status_holder \<times> nat \<times> TaskStatus"

text \<open>The local variables of \<open>execute_task\<close> during the step loop, with the status log and
  the outcomes of the handler invocations made so far.\<close>

record exec_state =
  plan_steps :: "PlanStep list"
  plan_data :: "plan_entry list"
  exec_context :: context_dict
  final_results :: "pystr list"
  status_log :: "status_event list"
  outcomes :: "handler_outcome list"

text \<open>\<open>_update_step_status\<close>: what it assigns on the step object, and the call on the
  \<open>i\<close>-th step of the plan.\<close>

definition set_status :: "PlanStep \<Rightarrow> TaskStatus \<Rightarrow> PlanStep" where
  "set_status step new_status =
    (let step = step \<lparr> ps_status := new_status \<rparr> in
     if new_status = IN_PROGRESS then
       (if ps_start_time step = None then step \<lparr> ps_start_time := Some Timestamp \<rparr>
        else step)
     else if new_status = COMPLETED \<or> new_status = FAILED then
       (if ps_end_time step = None then step \<lparr> ps_end_time := Some Timestamp \<rparr>
        else step)
     else step)"

definition update_step_status :: "exec_state \<Rightarrow> nat \<Rightarrow> TaskStatus \<Rightarrow> exec_state" where
  "update_step_status st i new_status =
    st \<lparr> plan_steps := (plan_steps st)[i := set_status (plan_steps st ! i) new_status],
         status_log := status_log st @ [(StepObject, i, new_status)] \<rparr>"

text \<open>The projection of a step's output into the shared context, keyed by step id.\<close>

definition project_output :: "pystr \<Rightarrow> step_result \<Rightarrow> context_dict \<Rightarrow> context_dict" where
  "project_output sid step_result ctx =
    (if sid = ascii ''search''
       then ctx(ascii ''papers'' \<mapsto>
                  (case sr_papers step_result of None \<Rightarrow> PList [] | Some v \<Rightarrow> v))
     else if sid = ascii ''analyze''
       then ctx(ascii ''analysis'' \<mapsto>
                  (case sr_analysis step_result of None \<Rightarrow> PDict [] | Some v \<Rightarrow> v))
     else if sid = ascii ''parse''
       then ctx(ascii ''schedule_info'' \<mapsto>
                  (case sr_schedule_info step_result of None \<Rightarrow> PDict [] | Some v \<Rightarrow> v))
     else if sid = ascii ''create''
       then ctx(ascii ''schedule'' \<mapsto>
                  (case sr_schedule step_result of None \<Rightarrow> PDict [] | Some v \<Rightarrow> v))
     else if sid = ascii ''analyze_request''
       then ctx(ascii ''analysis'' \<mapsto>
                  (case sr_analysis step_result of None \<Rightarrow> PDict [] | Some v \<Rightarrow> v))
     else if sid = ascii ''understand''
       then ctx(ascii ''analysis'' \<mapsto>
                  (case sr_analysis step_result of None \<Rightarrow> PDict [] | Some v \<Rightarrow> v))
     else ctx)"

text \<open>\<open>step_result.get("result", "wan cheng")\<close>.\<close>

definition result_text :: "step_result \<Rightarrow> pystr" where
  "result_text step_result =
    (case sr_result step_result of None \<Rightarrow> [23436, 25104] | Some t \<Rightarrow> t)"

text \<open>The line a finished step adds to \<open>final_results\<close>.\<close>

definition completed_line :: "PlanStep \<Rightarrow> step_result \<Rightarrow> pystr" where
  "completed_line step step_result =
    (if ps_step_id step = ascii ''answer'' \<and> sr_answer step_result \<noteq> None
       then ascii ''**'' @ ps_name step @ ascii ''**:'' @ [10, 10] @ the (sr_answer step_result)
     else ascii ''**'' @ ps_name step @ ascii ''**: '' @ result_text step_result)"

definition failed_line :: "PlanStep \<Rightarrow> pystr \<Rightarrow> pystr" where
  "failed_line step error_msg =
    ascii ''**'' @ ps_name step @ ascii ''**: '' @ [25191, 34892, 22833, 36133, 32, 45, 32]
    @ error_msg"

text \<open>One pass through the body of \<open>for i, step in enumerate(plan_steps)\<close>.\<close>

definition run_step ::
  "step_handler \<Rightarrow> pystr \<Rightarrow> TaskType \<Rightarrow> exec_state \<Rightarrow> nat \<Rightarrow> exec_state" where
  "run_step handler task task_type st i =
    (let st = update_step_status st i IN_PROGRESS;
         step = plan_steps st ! i;
         (outcome, ctx) = handler i step task task_type (exec_context st);
         st = st \<lparr> exec_context := ctx, outcomes := outcomes st @ [outcome] \<rparr>
     in case outcome of
          HandlerReturns step_result \<Rightarrow>
            (let st = st \<lparr> exec_context :=
                            project_output (ps_step_id step) step_result (exec_context st) \<rparr>;
                 st = st \<lparr> plan_data := (plan_data st)
                            [i := (plan_data st ! i)
                               \<lparr> pe_status := COMPLETED,
                                 pe_output := HandlerOutput step_result,
                                 pe_result := Some (result_text step_result) \<rparr>],
                          status_log := status_log st @ [(PlanRow, i, COMPLETED)] \<rparr>;
                 st = update_step_status st i COMPLETED
             in st \<lparr> final_results := final_results st @ [completed_line step step_result] \<rparr>)
        | HandlerRaises error_msg \<Rightarrow>
            (let st = st \<lparr> plan_data := (plan_data st)
                            [i := (plan_data st ! i)
                               \<lparr> pe_status := FAILED,
                                 pe_output := ErrorOutput error_msg,
                                 pe_result := Some ([25191, 34892, 22833, 36133, 58, 32]
                                                    @ error_msg) \<rparr>],
                          status_log := status_log st @ [(PlanRow, i, FAILED)] \<rparr>;
                 st = update_step_status st i FAILED
             in st \<lparr> final_results := final_results st @ [failed_line step error_msg] \<rparr>))"

text \<open>The row of \<open>plan_data\<close> made for a step before the loop.\<close>

definition plan_row :: "PlanStep \<Rightarrow> plan_entry" where
  "plan_row s =
    \<lparr> pe_step_id = ps_step_id s, pe_name = ps_name s, pe_description = ps_description s,
      pe_output_type = ps_output_type s, pe_status = ps_status s, pe_output = NoOutput,
      pe_result = None \<rparr>"

text \<open>The state at the head of the step loop: the steps and rows just created (each
  creation assigns the status once), and the context seeded from the caller's.\<close>

definition initial_exec_state ::
  "PlanStep list \<Rightarrow> (pystr \<times> pyval) list \<Rightarrow> context_dict option \<Rightarrow> exec_state" where
  "initial_exec_state steps extracted_params context_input =
    \<lparr> plan_steps = steps,
      plan_data = map plan_row steps,
      exec_context =
        (let ctx = [ascii ''extracted_params'' \<mapsto> PDict extracted_params] in
         case context_input of
           None \<Rightarrow> ctx
         | Some ci \<Rightarrow>
             if ci = Map.empty then ctx
             else ctx(ascii ''currentPapers'' \<mapsto>
                        (case ci (ascii ''currentPapers'') of None \<Rightarrow> PList [] | Some v \<Rightarrow> v),
                      ascii ''selectedPaperIndex'' \<mapsto>
                        (case ci (ascii ''selectedPaperIndex'') of None \<Rightarrow> PNone | Some v \<Rightarrow> v),
                      ascii ''messages'' \<mapsto>
                        (case ci (ascii ''messages'') of None \<Rightarrow> PList [] | Some v \<Rightarrow> v))),
      final_results = [],
      status_log = map (\<lambda>i. (StepObject, i, ps_status (steps ! i))) [0..<length steps]
                   @ map (\<lambda>i. (PlanRow, i, ps_status (steps ! i))) [0..<length steps],
      outcomes = [] \<rparr>"

definition run_plan :: "step_handler \<Rightarrow> pystr \<Rightarrow> TaskType \<Rightarrow> exec_state \<Rightarrow> exec_state" where
  "run_plan handler task task_type st =
    foldl (run_step handler task task_type) st [0..<length (plan_steps st)]"

text \<open>\<open>{"success": True, **results}\<close>: a \<open>success\<close> key of \<open>results\<close> would win.\<close>

definition with_success :: "result_bag \<Rightarrow> result_bag" where
  "with_success results =
    results \<lparr> k_success := (case k_success results of None \<Rightarrow> Some True | Some b \<Rightarrow> Some b) \<rparr>"

text \<open>
  \<open>_call_llm_stream\<close> as the chunks it yields: the fixed notice without a client;
  otherwise the non-empty deltas received and, when the stream fails, the error message.
\<close>

record stream_reply =
  deltas :: "pystr list"
  stream_error :: "pystr option"

definition call_llm_stream :: "stream_reply option \<Rightarrow> pystr list" where
  "call_llm_stream client =
    (case client of
       None \<Rightarrow>
         [[76, 76, 77, 32, 26410, 37197, 32622, 65292, 26080, 27861, 29983, 25104, 22238,
           22797, 12290, 35831, 37197, 32622, 32, 65, 80, 73, 32, 75, 101, 121, 12290]]
     | Some reply \<Rightarrow>
         filter (\<lambda>content. content \<noteq> []) (deltas reply)
         @ (case stream_error reply of
              None \<Rightarrow> []
            | Some e \<Rightarrow> [[76, 76, 77, 32, 35843, 29992, 22833, 36133, 58, 32] @ e]))"

definition execute_question_answering_stream ::
  "stream_reply option \<Rightarrow> pystr \<Rightarrow> result_bag \<Rightarrow> result_bag" where
  "execute_question_answering_stream client task results =
    (let full_answer = concat (call_llm_stream client);
         results = results
           \<lparr> k_task_type := Some (task_type_value QUESTION_ANSWERING),
             k_final_answer := Some full_answer,
             k_completed_at := Some Timestamp,
             k_plan := Some
               [\<lparr> pe_step_id = ascii ''answer'',
                  pe_name = [29983, 25104, 22238, 31572],
                  pe_description = [30452, 25509, 22238, 31572, 29992, 25143, 38382, 39064],
                  pe_output_type = ascii ''answer'',
                  pe_status = COMPLETED,
                  pe_output = AnswerOutput full_answer,
                  pe_result = None \<rparr>] \<rparr>
     in with_success results)"

text \<open>
  \<open>UnifiedAgent.execute_task\<close>, from the analysis that \<open>_analyze_task_with_llm\<close> returned
  for the task (with or without conversation context).  It returns the result dict and
  the final state of the step loop; on the question-answering path no step object exists
  and the only status assignment is the synthetic row's.
\<close>

definition unified_execute_task ::
  "(pystr \<Rightarrow> pystr) \<Rightarrow> step_handler \<Rightarrow> stream_reply option \<Rightarrow> analysis \<Rightarrow> pystr
     \<Rightarrow> context_dict option \<Rightarrow> result_bag \<times> exec_state" where
  "unified_execute_task lower handler stream_client a task context_input =
    (let results = empty_result
           \<lparr> k_task := Some task, k_started_at := Some Timestamp, k_steps := Some [],
             k_plan := Some [], k_final_answer := Some [] \<rparr>;
         extracted_params = (case an_extracted_params a of None \<Rightarrow> [] | Some ps \<Rightarrow> ps);
         llm_plan = get_list (an_plan a);
         task_type = task_type_of lower a
     in if task_type = QUESTION_ANSWERING then
          (execute_question_answering_stream stream_client task results,
           (initial_exec_state [] extracted_params context_input)
             \<lparr> status_log := [(PlanRow, 0, COMPLETED)] \<rparr>)
        else
          (let plan_steps0 = make_plan_steps llm_plan task_type task;
               results = results
                 \<lparr> k_plan := Some (map plan_row plan_steps0),
                   k_task_type := Some (task_type_value task_type),
                   k_extracted_params := Some extracted_params \<rparr>;
               st = run_plan handler task task_type
                      (initial_exec_state plan_steps0 extracted_params context_input);
               results = results
                 \<lparr> k_final_answer := Some (join [10, 10] (final_results st)),
                   k_completed_at := Some Timestamp,
                   k_plan := Some (plan_data st) \<rparr>
           in (with_success results, st)))"

section \<open>Quantities the statements about the step executor refer to\<close>

text \<open>The status a step ends with after an outcome, the line it adds to
  \<open>final_results\<close>, and what the outcome writes into the step's row of \<open>plan_data\<close>.\<close>

definition final_status :: "handler_outcome \<Rightarrow> TaskStatus" where
  "final_status outcome =
    (case outcome of HandlerReturns step_result \<Rightarrow> COMPLETED | HandlerRaises e \<Rightarrow> FAILED)"

definition summary_line :: "PlanStep \<Rightarrow> handler_outcome \<Rightarrow> pystr" where
  "summary_line step outcome =
    (case outcome of
       HandlerReturns step_result \<Rightarrow> completed_line step step_result
     | HandlerRaises e \<Rightarrow> failed_line step e)"

definition row_of_outcome :: "plan_entry \<Rightarrow> handler_outcome \<Rightarrow> plan_entry" where
  "row_of_outcome row outcome =
    (case outcome of
       HandlerReturns step_result \<Rightarrow>
         row \<lparr> pe_status := COMPLETED, pe_output := HandlerOutput step_result,
               pe_result := Some (result_text step_result) \<rparr>
     | HandlerRaises e \<Rightarrow>
         row \<lparr> pe_status := FAILED, pe_output := ErrorOutput e,
               pe_result := Some ([25191, 34892, 22833, 36133, 58, 32] @ e) \<rparr>)"

text \<open>The statuses assigned to one holder (the \<open>i\<close>-th step object or the \<open>i\<close>-th plan row),
  in order.\<close>

definition status_seq :: "status_holder \<Rightarrow> nat \<Rightarrow> status_event list \<Rightarrow> TaskStatus list" where
  "status_seq h i events = map (\<lambda>(h', j, s). s) (filter (\<lambda>(h', j, s). h' = h \<and> j = i) events)"

text \<open>Invariant of the step loop for a plan of \<open>n\<close> steps after \<open>k\<close> of them have run.\<close>

definition exec_inv :: "nat \<Rightarrow> nat \<Rightarrow> exec_state \<Rightarrow> bool" where
  "exec_inv n k st \<longleftrightarrow>
     length (plan_steps st) = n \<and> length (plan_data st) = n
     \<and> length (outcomes st) = k \<and> length (final_results st) = k
     \<and> (\<forall>j < k.
           ps_status (plan_steps st ! j) = final_status (outcomes st ! j)
           \<and> pe_status (plan_data st ! j) = final_status (outcomes st ! j)
           \<and> plan_data st ! j = row_of_outcome (plan_data st ! j) (outcomes st ! j)
           \<and> final_results st ! j = summary_line (plan_steps st ! j) (outcomes st ! j)
           \<and> status_seq StepObject j (status_log st)
               = [PENDING, IN_PROGRESS, final_status (outcomes st ! j)]
           \<and> status_seq PlanRow j (status_log st) = [PENDING, final_status (outcomes st ! j)])
     \<and> (\<forall>j. k \<le> j \<and> j < n \<longrightarrow>
           status_seq StepObject j (status_log st) = [PENDING]
           \<and> status_seq PlanRow j (status_log st) = [PENDING])
     \<and> (\<forall>j. n \<le> j \<longrightarrow>
           status_seq StepObject j (status_log st) = []
           \<and> status_seq PlanRow j (status_log st) = [])"

text \<open>The final state of the step loop on the path that runs a plan.\<close>

definition plan_state ::
  "(pystr \<Rightarrow> pystr) \<Rightarrow> step_handler \<Rightarrow> analysis \<Rightarrow> pystr \<Rightarrow> context_dict option \<Rightarrow> exec_state" where
  "plan_state lower handler a task ci =
    run_plan handler task (task_type_of lower a)
      (initial_exec_state
         (make_plan_steps (get_list (an_plan a)) (task_type_of lower a) task)
         (case an_extracted_params a of None \<Rightarrow> [] | Some ps \<Rightarrow> ps) ci)"

text \<open>The id a step made from an entry of the oracle's plan gets at position \<open>k\<close>.\<close>

definition llm_step_id :: "nat \<Rightarrow> step_info \<Rightarrow> pystr" where
  "llm_step_id k step_info =
    (case si_step_id step_info of None \<Rightarrow> ascii ''step_'' @ str_of_nat k | Some x \<Rightarrow> x)"

section \<open>Quantities the statements about the loop refer to\<close>







section \<open>Conditions and concrete inputs used in the statements\<close>


text \<open>A result whose only key is a short final answer.\<close>

definition short_answer_result :: result_bag where
  "short_answer_result = empty_result \<lparr> k_final_answer := Some (ascii ''ok'') \<rparr>"







text \<open>An analysis whose plan has two steps with the same id, a handler result, and two
  handlers: one that raises on the first step only, one that raises on every step.\<close>

definition dup_plan :: "step_info list" where
  "dup_plan =
    [ step_info_of (ascii ''a'') (ascii ''first'') [] (ascii ''result''),
      step_info_of (ascii ''a'') (ascii ''second'') [] (ascii ''result'') ]"

definition dup_analysis :: analysis where
  "dup_analysis =
    \<lparr> an_task_type = Some (ascii ''general''), an_intent_summary = None,
      an_extracted_params = None, an_plan = Some dup_plan, an_reasoning = None \<rparr>"

definition ok_result :: step_result where
  "ok_result =
    \<lparr> sr_output_type = Some (ascii ''text''), sr_result = Some (ascii ''ok''),
      sr_answer = None, sr_papers = None, sr_analysis = None, sr_schedule_info = None,
      sr_schedule = None, sr_other = [] \<rparr>"

definition failing_first_handler :: step_handler where
  "failing_first_handler i step task task_type ctx =
    (if i = 0 then HandlerRaises (ascii ''boom'') else HandlerReturns ok_result, ctx)"

definition always_failing_handler :: step_handler where
  "always_failing_handler i step task task_type ctx = (HandlerRaises (ascii ''boom''), ctx)"

section \<open>Theorems\<close>

text \<open>
  C7.  With the oracle absent, classification is the function \<open>_rule_based_classify\<close> of the
  (lower-cased) task text alone: the first rule of the ordered table literature\_research,
  schedule\_planning, experiment\_management, question\_answering whose keyword list has a
  keyword contained in the text decides, and no match gives general.  Scenario A's task
  classifies as literature\_research, also by the analysis fallback that \<open>execute_task\<close>
  takes without an oracle.
\<close>

theorem C7_rule_based_classification:
  "classify_task lower None task = first_match_classify (lower task)
   \<and> rule_based_classify lower task = first_match_classify (lower task)
   \<and> classify_task ascii_lower None scenario_a_task = LITERATURE_RESEARCH
   \<and> task_type_of ascii_lower (analyze_task_with_llm ascii_lower None scenario_a_task)
       = LITERATURE_RESEARCH"
proof -
  have a: "rule_based_classify lower task = first_match_classify (lower task)"
    by (simp add: rule_based_classify_def first_match_classify_def classification_rules_def)
  have s: "sublist [25628, 32034] (ascii_lower scenario_a_task)"
    by (simp add: scenario_a_task_def ascii_lower_def ascii_def sublist_Cons_right)
  then have "any_in literature_keywords (ascii_lower scenario_a_task)"
    by (simp add: any_in_def literature_keywords_def)
  then have b: "rule_based_classify ascii_lower scenario_a_task = LITERATURE_RESEARCH"
    by (simp add: rule_based_classify_def)
  have "an_task_type (fallback_task_analysis ascii_lower scenario_a_task)
          = Some (ascii ''literature_research'')"
    using s by (simp add: fallback_task_analysis_def any_in_def)
  moreover have "sublist (ascii ''literature'') (ascii_lower (ascii ''literature_research''))"
    by (simp add: ascii_lower_def ascii_def)
  ultimately have c: "task_type_of ascii_lower
      (analyze_task_with_llm ascii_lower None scenario_a_task) = LITERATURE_RESEARCH"
    by (simp add: task_type_of_def analyze_task_with_llm_def)
  show ?thesis using a b c by (simp add: classify_task_def)
qed

subsection \<open>Evaluator\<close>

lemma ite_nonneg: "0 \<le> x \<Longrightarrow> 0 \<le> y \<Longrightarrow> (0::rat) \<le> (if c then x else y)"
  by simp

lemma clamp_bounds:
  "0 \<le> s \<Longrightarrow> 0 \<le> (if b then 0 else min 1 s) \<and> (if b then 0 else min 1 s) \<le> (1::rat)"
  by simp

lemma completeness_bounds:
  "0 \<le> evaluate_completeness task result tt \<and> evaluate_completeness task result tt \<le> 1"
  unfolding evaluate_completeness_def Let_def
  by (rule clamp_bounds) (intro ite_nonneg add_nonneg_nonneg; simp)

lemma accuracy_bounds:
  "0 \<le> evaluate_accuracy lower task result tt \<and> evaluate_accuracy lower task result tt \<le> 1"
  unfolding evaluate_accuracy_def Let_def
  by (rule clamp_bounds) (intro ite_nonneg add_nonneg_nonneg; simp)

lemma usefulness_bounds:
  "0 \<le> evaluate_usefulness lower task result tt
   \<and> evaluate_usefulness lower task result tt \<le> 1"
  unfolding evaluate_usefulness_def Let_def
  by (rule clamp_bounds) (intro ite_nonneg add_nonneg_nonneg; simp)

lemma clarity_bounds:
  "0 \<le> evaluate_clarity task result \<and> evaluate_clarity task result \<le> 1"
  by (simp add: evaluate_clarity_def Let_def)

lemma weighted_bounds:
  fixes a b c d :: rat
  assumes "0 \<le> a \<and> a \<le> 1" "0 \<le> b \<and> b \<le> 1" "0 \<le> c \<and> c \<le> 1" "0 \<le> d \<and> d \<le> 1"
  shows "0 \<le> a * 0.3 + b * 0.3 + c * 0.25 + d * 0.15
         \<and> a * 0.3 + b * 0.3 + c * 0.25 + d * 0.15 \<le> 1"
  using assms by simp


lemma evaluate_completeness_field:
  "completeness (evaluate lower client task result tt) =
     (case client of
        None \<Rightarrow> evaluate_completeness task result tt
      | Some r \<Rightarrow>
          (evaluate_completeness task result tt + completeness (llm_evaluate client)) / 2)"
  by (cases client) (simp_all add: evaluate_def Let_def EvaluationResult_default_def)

lemma evaluate_accuracy_field:
  "accuracy (evaluate lower client task result tt) =
     (case client of
        None \<Rightarrow> evaluate_accuracy lower task result tt
      | Some r \<Rightarrow>
          (evaluate_accuracy lower task result tt + accuracy (llm_evaluate client)) / 2)"
  by (cases client) (simp_all add: evaluate_def Let_def EvaluationResult_default_def)

lemma evaluate_usefulness_field:
  "usefulness (evaluate lower client task result tt) =
     (case client of
        None \<Rightarrow> evaluate_usefulness lower task result tt
      | Some r \<Rightarrow>
          (evaluate_usefulness lower task result tt + usefulness (llm_evaluate client)) / 2)"
  by (cases client) (simp_all add: evaluate_def Let_def EvaluationResult_default_def)

lemma evaluate_clarity_field:
  "clarity (evaluate lower client task result tt) =
     (case client of
        None \<Rightarrow> evaluate_clarity task result
      | Some r \<Rightarrow> (evaluate_clarity task result + clarity (llm_evaluate client)) / 2)"
  by (cases client) (simp_all add: evaluate_def Let_def EvaluationResult_default_def)

lemmas evaluate_fields =
  evaluate_completeness_field evaluate_accuracy_field evaluate_usefulness_field
  evaluate_clarity_field

lemma evaluate_passed:
  "passed (evaluate lower client task result tt)
   = (PASS_THRESHOLD \<le> overall_score (evaluate lower client task result tt))"
  by (cases client) (simp_all add: evaluate_def Let_def overall_score_def)




text \<open>The heuristic sub-scores of the short-answer result as a general task.\<close>

lemma short_answer_nonempty: "\<not> is_empty short_answer_result"
  by (simp add: is_empty_def short_answer_result_def empty_result_def)

lemma short_answer_heuristics:
  "evaluate_completeness task short_answer_result (ascii ''general'') = 1/2"
  "evaluate_accuracy lower task short_answer_result (ascii ''general'') = 7/10"
  "evaluate_usefulness lower task short_answer_result (ascii ''general'') = 1/2"
  "evaluate_clarity task short_answer_result = 1/2"
proof -
  have fa: "k_final_answer short_answer_result = Some (ascii ''ok'')"
    and pl: "k_plan short_answer_result = None"
    by (simp_all add: short_answer_result_def empty_result_def)
  have tt: "ascii ''general'' \<noteq> ascii ''literature_research''"
    "ascii ''general'' \<noteq> ascii ''question_answering''"
    "ascii ''general'' \<noteq> ascii ''schedule_planning''"
    "ascii ''general'' \<noteq> ascii ''experiment_management''"
    by (simp_all add: ascii_def)
  show "evaluate_completeness task short_answer_result (ascii ''general'') = 1/2"
    by (simp add: evaluate_completeness_def short_answer_nonempty tt fa pl str_truthy_def
        get_str_def get_list_def ascii_def)
  show "evaluate_accuracy lower task short_answer_result (ascii ''general'') = 7/10"
    by (simp add: evaluate_accuracy_def short_answer_nonempty tt)
  show "evaluate_usefulness lower task short_answer_result (ascii ''general'') = 1/2"
    by (simp add: evaluate_usefulness_def short_answer_nonempty tt)
  show "evaluate_clarity task short_answer_result = 1/2"
    by (simp add: evaluate_clarity_def short_answer_nonempty fa get_str_def ascii_def
        split_len_def py_count_def sublist_Cons_right)
qed




text \<open>With a failing oracle call every sub-score is half the heuristic one, so no
  evaluation passes.\<close>

lemma failed_oracle_halves:
  assumes "reply = EvalRaises \<or> reply = EvalNoJson"
  shows "completeness (evaluate lower (Some reply) task result tt)
           = evaluate_completeness task result tt / 2"
    and "accuracy (evaluate lower (Some reply) task result tt)
           = evaluate_accuracy lower task result tt / 2"
    and "usefulness (evaluate lower (Some reply) task result tt)
           = evaluate_usefulness lower task result tt / 2"
    and "clarity (evaluate lower (Some reply) task result tt)
           = evaluate_clarity task result / 2"
  using assms
  by (auto simp: evaluate_fields llm_evaluate_def EvaluationResult_default_def)

lemma failed_oracle_never_passes:
  assumes "reply = EvalRaises \<or> reply = EvalNoJson"
  shows "\<not> passed (evaluate lower (Some reply) task result tt)"
proof -
  have "overall_score (evaluate lower (Some reply) task result tt)
        = (evaluate_completeness task result tt * 0.3
           + evaluate_accuracy lower task result tt * 0.3
           + evaluate_usefulness lower task result tt * 0.25
           + evaluate_clarity task result * 0.15) / 2"
    by (simp add: overall_score_def failed_oracle_halves [OF assms])
  moreover have "evaluate_completeness task result tt * 0.3
           + evaluate_accuracy lower task result tt * 0.3
           + evaluate_usefulness lower task result tt * 0.25
           + evaluate_clarity task result * 0.15 \<le> 1"
    using weighted_bounds [OF completeness_bounds accuracy_bounds usefulness_bounds
        clarity_bounds] by blast
  ultimately show ?thesis
    by (simp add: evaluate_passed PASS_THRESHOLD_def)
qed

text \<open>
  C9 (the code departs from it).  When the oracle is configured and its evaluation call
  raises, \<open>evaluate\<close> still returns an evaluation, but the sub-scores are not the
  heuristic ones: the all-zero default of the failed call is averaged in.  On the
  short-answer result the heuristics give 1/2, 7/10, 1/2, 1/2 and \<open>evaluate\<close> returns
  1/4, 7/20, 1/4, 1/4, while the same call without an oracle returns the heuristics.
\<close>

theorem C9_failed_oracle_scores:
  "completeness (evaluate ascii_lower (Some EvalRaises) [] short_answer_result
      (ascii ''general'')) = 1/4
   \<and> evaluate_completeness [] short_answer_result (ascii ''general'') = 1/2
   \<and> accuracy (evaluate ascii_lower (Some EvalRaises) [] short_answer_result
      (ascii ''general'')) = 7/20
   \<and> evaluate_accuracy ascii_lower [] short_answer_result (ascii ''general'') = 7/10
   \<and> usefulness (evaluate ascii_lower (Some EvalRaises) [] short_answer_result
      (ascii ''general'')) = 1/4
   \<and> evaluate_usefulness ascii_lower [] short_answer_result (ascii ''general'') = 1/2
   \<and> clarity (evaluate ascii_lower (Some EvalRaises) [] short_answer_result
      (ascii ''general'')) = 1/4
   \<and> evaluate_clarity [] short_answer_result = 1/2
   \<and> completeness (evaluate ascii_lower None [] short_answer_result (ascii ''general''))
       = 1/2"
  by (simp add: short_answer_heuristics evaluate_fields llm_evaluate_def
      EvaluationResult_default_def)

subsection \<open>Analyzer\<close>

lemma classify_failure_first_rule:
  "classify_failure result evaluation tt = first_failure_rule result evaluation"
  by (simp add: classify_failure_def first_failure_rule_def failure_rules_def)

lemma analyze_failure_type:
  "overall_score evaluation < 0.6 \<Longrightarrow>
   failure_type (analyze client task result evaluation tt)
     = classify_failure result evaluation tt"
  by (cases client) (simp_all add: analyze_def Let_def ReflectionResult_default_def)

text \<open>
  C4.  \<open>_classify_failure\<close> is the first matching rule of the ordered list: empty result
  gives no\_results; completeness below 0.4 incomplete\_results; accuracy below 0.4
  irrelevant\_results; a failure marker in the final answer api\_error; completeness or
  accuracy below 0.6 incomplete\_results; otherwise unknown.  \<open>analyze\<close> assigns exactly
  this failure type to every failing evaluation (overall score below 0.6), in particular
  to every evaluation that \<open>evaluate\<close> returns with \<open>passed = False\<close>, with or without
  an oracle.
\<close>

theorem C4_failure_classification:
  "classify_failure result evaluation tt = first_failure_rule result evaluation
   \<and> (overall_score evaluation < 0.6 \<longrightarrow>
        failure_type (analyze client task result evaluation tt)
          = first_failure_rule result evaluation)
   \<and> (\<not> passed (evaluate lower eclient task result tt) \<longrightarrow>
        failure_type (analyze client task result (evaluate lower eclient task result tt) tt)
          = first_failure_rule result (evaluate lower eclient task result tt))"
proof -
  have "overall_score (evaluate lower eclient task result tt) < 0.6"
    if "\<not> passed (evaluate lower eclient task result tt)"
    using that by (simp add: evaluate_passed PASS_THRESHOLD_def)
  then show ?thesis
    using analyze_failure_type [of evaluation client task result tt]
      analyze_failure_type [of "evaluate lower eclient task result tt" client task result tt]
    by (auto simp: classify_failure_first_rule)
qed

theorem C4_failure_classification_witness:
  "overall_score (evaluate ascii_lower None [] short_answer_result (ascii ''general'')) < 0.6
   \<and> \<not> passed (evaluate ascii_lower None [] short_answer_result (ascii ''general''))
   \<and> failure_type (analyze None [] short_answer_result
        (evaluate ascii_lower None [] short_answer_result (ascii ''general''))
        (ascii ''general'')) = ascii ''incomplete_results''"
proof -
  let ?e = "evaluate ascii_lower None [] short_answer_result (ascii ''general'')"
  have sc: "completeness ?e = 1/2" "accuracy ?e = 7/10" "usefulness ?e = 1/2"
    "clarity ?e = 1/2"
    by (simp_all add: evaluate_fields short_answer_heuristics)
  have ov: "overall_score ?e < 0.6"
    by (simp add: overall_score_def sc)
  have np: "\<not> passed ?e"
    using ov by (simp add: evaluate_passed PASS_THRESHOLD_def)
  have fa: "get_str (k_final_answer short_answer_result) = ascii ''ok''"
    by (simp add: short_answer_result_def empty_result_def get_str_def)
  have nm: "\<not> any_in failure_markers (ascii ''ok'')"
    by (simp add: any_in_def failure_markers_def ascii_def sublist_Cons_right)
  have "first_failure_rule short_answer_result ?e = ascii ''incomplete_results''"
    by (simp add: first_failure_rule_def failure_rules_def short_answer_nonempty sc fa nm)
  then show ?thesis
    using ov np
      C4_failure_classification [of short_answer_result ?e "ascii ''general''" None "[]"
        ascii_lower None]
    by simp
qed

subsection \<open>Reflection loop\<close>
























subsection \<open>Tool dispatch\<close>

text \<open>Whatever the registry, tool and arguments, a tool call invokes the tool once and
  never retries: the dispatcher has already turned the failure into an error envelope.\<close>

lemma run_tool_call_single_try:
  "run_tool_call max_retries reg tool_name tool_args =
    ((if is_async_tool reg tool_name
        then execute_async_tool reg 0 tool_name tool_args
      else \<lparr> e_success = Some True,
             e_message = Some (execute_tool reg 0 tool_name tool_args),
             e_error = None, e_other = [] \<rparr>), 0)"
  by (simp add: run_tool_call_def retry_loop.simps [of _ _ 0] tool_try_body_def)

text \<open>
  C6 (the code departs from it).  Scenario C: with \<open>max_retries = 2\<close>, an async tool that
  raises twice and would succeed on its third invocation is invoked once; the call
  returns the dispatcher's error envelope for the first failure with \<open>retry_count = 0\<close>,
  not the success envelope with \<open>retry_count = 2\<close>.  Had the failures reached the retry
  loop as exceptions, the loop would have returned the success envelope after two
  retries.
\<close>

theorem C6_async_tool_not_retried:
  "run_tool_call max_retries_default scenario_c_registry (ascii ''flaky'') []
     = (\<lparr> e_success = Some False, e_message = None,
          e_error = Some ([24322, 27493, 24037, 20855, 25191, 34892, 38169, 35823, 58, 32]
                          @ ascii ''boom''),
          e_other = [] \<rparr>, 0)
   \<and> retry_loop max_retries_default
        (\<lambda>k. case flaky_tool k [] of AsyncRaises e \<Rightarrow> Inl e | AsyncReturns r \<Rightarrow> Inr r) 0 None
     = (Some scenario_c_success, 2, Some (ascii ''boom''))"
proof -
  have a: "is_async_tool scenario_c_registry (ascii ''flaky'')"
    by (simp add: is_async_tool_def scenario_c_registry_def)
  have b: "execute_async_tool scenario_c_registry 0 (ascii ''flaky'') []
        = \<lparr> e_success = Some False, e_message = None,
            e_error = Some ([24322, 27493, 24037, 20855, 25191, 34892, 38169, 35823, 58, 32]
                            @ ascii ''boom''),
            e_other = [] \<rparr>"
    by (simp add: execute_async_tool_def scenario_c_registry_def flaky_tool_def)
  have c: "retry_loop 2
        (\<lambda>k. case flaky_tool k [] of AsyncRaises e \<Rightarrow> Inl e | AsyncReturns r \<Rightarrow> Inr r) 0 None
     = (Some scenario_c_success, 2, Some (ascii ''boom''))"
    by (simp add: retry_loop.simps [of _ _ 0] retry_loop.simps [of _ _ "Suc 0"]
        retry_loop.simps [of _ _ "Suc (Suc 0)"] flaky_tool_def numeral_2_eq_2)
  show ?thesis
    using a b c by (simp add: run_tool_call_single_try max_retries_default_def)
qed

subsection \<open>Step executor\<close>

lemma status_seq_append:
  "status_seq h i (xs @ ys) = status_seq h i xs @ status_seq h i ys"
  by (simp add: status_seq_def)

lemma status_seq_single:
  "status_seq h i [(h', j, s)] = (if h' = h \<and> j = i then [s] else [])"
  by (simp add: status_seq_def)

lemma set_status_simps:
  "ps_status (set_status step s) = s"
  "ps_name (set_status step s) = ps_name step"
  "ps_step_id (set_status step s) = ps_step_id step"
  by (simp_all add: set_status_def Let_def)

lemma update_step_status_simps:
  "status_log (update_step_status st i s) = status_log st @ [(StepObject, i, s)]"
  "plan_data (update_step_status st i s) = plan_data st"
  "exec_context (update_step_status st i s) = exec_context st"
  "final_results (update_step_status st i s) = final_results st"
  "outcomes (update_step_status st i s) = outcomes st"
  "length (plan_steps (update_step_status st i s)) = length (plan_steps st)"
  by (simp_all add: update_step_status_def)

lemma update_step_status_nth:
  "j \<noteq> i \<Longrightarrow> plan_steps (update_step_status st i s) ! j = plan_steps st ! j"
  "i < length (plan_steps st) \<Longrightarrow>
     plan_steps (update_step_status st i s) ! i = set_status (plan_steps st ! i) s"
  by (simp_all add: update_step_status_def)

lemma run_step_eq:
  assumes "handler i (set_status (plan_steps st ! i) IN_PROGRESS) task tt (exec_context st)
             = (outcome, ctx)"
    and "i < length (plan_steps st)"
  shows "status_log (run_step handler task tt st i)
           = status_log st @ [(StepObject, i, IN_PROGRESS), (PlanRow, i, final_status outcome),
                              (StepObject, i, final_status outcome)]"
    and "outcomes (run_step handler task tt st i) = outcomes st @ [outcome]"
    and "final_results (run_step handler task tt st i)
           = final_results st @ [summary_line (set_status (plan_steps st ! i) IN_PROGRESS) outcome]"
    and "plan_data (run_step handler task tt st i)
           = (plan_data st)[i := row_of_outcome (plan_data st ! i) outcome]"
    and "plan_steps (run_step handler task tt st i)
           = (plan_steps st)[i := set_status (set_status (plan_steps st ! i) IN_PROGRESS)
                                    (final_status outcome)]"
  using assms
  by (cases outcome;
      simp add: run_step_def Let_def update_step_status_def final_status_def summary_line_def
        row_of_outcome_def)+

lemma row_of_outcome_idem:
  "row_of_outcome (row_of_outcome row outcome) outcome = row_of_outcome row outcome"
  "pe_status (row_of_outcome row outcome) = final_status outcome"
  by (cases outcome; simp add: row_of_outcome_def final_status_def)+

lemma summary_line_cong:
  "ps_name s = ps_name s' \<Longrightarrow> ps_step_id s = ps_step_id s' \<Longrightarrow>
   summary_line s outcome = summary_line s' outcome"
  by (cases outcome) (auto simp: summary_line_def completed_line_def failed_line_def)

lemma exec_inv_step:
  assumes inv: "exec_inv n k st" and k: "k < n"
  shows "exec_inv n (Suc k) (run_step handler task tt st k)"
proof -
  obtain outcome ctx where
    h: "handler k (set_status (plan_steps st ! k) IN_PROGRESS) task tt (exec_context st)
          = (outcome, ctx)"
    by (cases "handler k (set_status (plan_steps st ! k) IN_PROGRESS) task tt (exec_context st)")
  let ?st' = "run_step handler task tt st k"
  from inv have len: "length (plan_steps st) = n" "length (plan_data st) = n"
    "length (outcomes st) = k" "length (final_results st) = k"
    by (simp_all add: exec_inv_def)
  have kl: "k < length (plan_steps st)" using k len by simp
  note r = run_step_eq [where handler = handler and i = k and st = st and task = task
      and tt = tt, OF h kl]
  have old: "ps_status (plan_steps st ! j) = final_status (outcomes st ! j)
           \<and> pe_status (plan_data st ! j) = final_status (outcomes st ! j)
           \<and> plan_data st ! j = row_of_outcome (plan_data st ! j) (outcomes st ! j)
           \<and> final_results st ! j = summary_line (plan_steps st ! j) (outcomes st ! j)
           \<and> status_seq StepObject j (status_log st)
               = [PENDING, IN_PROGRESS, final_status (outcomes st ! j)]
           \<and> status_seq PlanRow j (status_log st) = [PENDING, final_status (outcomes st ! j)]"
    if "j < k" for j
    using inv that by (simp add: exec_inv_def)
  have pend: "status_seq StepObject j (status_log st) = [PENDING]
           \<and> status_seq PlanRow j (status_log st) = [PENDING]"
    if "k \<le> j" "j < n" for j
    using inv that by (simp add: exec_inv_def)
  have none: "status_seq StepObject j (status_log st) = []
           \<and> status_seq PlanRow j (status_log st) = []"
    if "n \<le> j" for j
    using inv that by (simp add: exec_inv_def)
  have seqS: "status_seq StepObject j (status_log ?st')
        = status_seq StepObject j (status_log st)
          @ (if j = k then [IN_PROGRESS, final_status outcome] else [])" for j
    by (simp add: r(1) status_seq_def)
  have seqR: "status_seq PlanRow j (status_log ?st')
        = status_seq PlanRow j (status_log st)
          @ (if j = k then [final_status outcome] else [])" for j
    by (simp add: r(1) status_seq_def)
  have a: "length (plan_steps ?st') = n" "length (plan_data ?st') = n"
    "length (outcomes ?st') = Suc k" "length (final_results ?st') = Suc k"
    by (simp_all add: r len)
  have b: "ps_status (plan_steps ?st' ! j) = final_status (outcomes ?st' ! j)
           \<and> pe_status (plan_data ?st' ! j) = final_status (outcomes ?st' ! j)
           \<and> plan_data ?st' ! j = row_of_outcome (plan_data ?st' ! j) (outcomes ?st' ! j)
           \<and> final_results ?st' ! j = summary_line (plan_steps ?st' ! j) (outcomes ?st' ! j)
           \<and> status_seq StepObject j (status_log ?st')
               = [PENDING, IN_PROGRESS, final_status (outcomes ?st' ! j)]
           \<and> status_seq PlanRow j (status_log ?st')
               = [PENDING, final_status (outcomes ?st' ! j)]"
    if j: "j < Suc k" for j
  proof (cases "j = k")
    case True
    have "summary_line (set_status (plan_steps st ! k) IN_PROGRESS) outcome
        = summary_line (set_status (set_status (plan_steps st ! k) IN_PROGRESS)
                          (final_status outcome)) outcome"
      by (rule summary_line_cong) (simp_all add: set_status_simps)
    then show ?thesis
      using pend [of k] k len
      by (simp add: True r(2-5) seqS seqR nth_append set_status_simps row_of_outcome_idem)
  next
    case False
    then have "j < k" using j by simp
    then show ?thesis
      using old [of j] False len k
      by (simp add: r(2-5) seqS seqR nth_append)
  qed
  have c: "status_seq StepObject j (status_log ?st') = [PENDING]
           \<and> status_seq PlanRow j (status_log ?st') = [PENDING]"
    if "Suc k \<le> j" "j < n" for j
    using pend [of j] that by (simp add: seqS seqR)
  have d: "status_seq StepObject j (status_log ?st') = []
           \<and> status_seq PlanRow j (status_log ?st') = []"
    if "n \<le> j" for j
    using none [of j] that k by (simp add: seqS seqR)
  show ?thesis
    unfolding exec_inv_def using a b c d by blast
qed

lemma status_seq_created:
  "status_seq h j (map (\<lambda>i. (h', i, PENDING)) [0..<n])
     = (if h' = h \<and> j < n then [PENDING] else [])"
  by (induction n) (auto simp: status_seq_def)

lemma status_seq_initial:
  assumes "\<forall>s \<in> set steps. ps_status s = PENDING"
  shows "status_seq h j (status_log (initial_exec_state steps ep ci))
         = (if j < length steps then [PENDING] else [])"
proof -
  have map_eq: "map (\<lambda>i. (h', i, ps_status (steps ! i))) [0..<length steps]
        = map (\<lambda>i. (h', i, PENDING)) [0..<length steps]" for h' :: status_holder
    using assms by simp
  have "status_log (initial_exec_state steps ep ci)
      = map (\<lambda>i. (StepObject, i, PENDING)) [0..<length steps]
        @ map (\<lambda>i. (PlanRow, i, PENDING)) [0..<length steps]"
    by (simp add: initial_exec_state_def map_eq)
  then show ?thesis
    by (cases h) (simp_all add: status_seq_append status_seq_created)
qed

lemma exec_inv_initial:
  assumes "\<forall>s \<in> set steps. ps_status s = PENDING"
  shows "exec_inv (length steps) 0 (initial_exec_state steps ep ci)"
  unfolding exec_inv_def
  by (simp add: status_seq_initial [OF assms]) (simp add: initial_exec_state_def)

lemma exec_inv_fold:
  assumes "exec_inv n 0 st" "m \<le> n"
  shows "exec_inv n m (foldl (run_step handler task tt) st [0..<m])"
  using assms(2)
proof (induction m)
  case 0
  then show ?case using assms(1) by simp
next
  case (Suc m)
  then have "exec_inv n m (foldl (run_step handler task tt) st [0..<m])" by simp
  from exec_inv_step [OF this] Suc.prems show ?case by simp
qed

lemma exec_inv_run_plan:
  assumes "\<forall>s \<in> set steps. ps_status s = PENDING"
  shows "exec_inv (length steps) (length steps)
           (run_plan handler task tt (initial_exec_state steps ep ci))"
proof -
  have l: "length (plan_steps (initial_exec_state steps ep ci)) = length steps"
    by (simp add: initial_exec_state_def)
  show ?thesis
    unfolding run_plan_def l
    by (rule exec_inv_fold [OF exec_inv_initial [OF assms]]) simp
qed

lemma steps_of_llm_plan_pending:
  "\<forall>s \<in> set acc. ps_status s = PENDING \<Longrightarrow>
   \<forall>s \<in> set (steps_of_llm_plan acc infos). ps_status s = PENDING"
  by (induction acc infos rule: steps_of_llm_plan.induct) (auto simp: PlanStep_init_def)

lemma make_plan_steps_pending:
  "\<forall>s \<in> set (make_plan_steps llm_plan tt task). ps_status s = PENDING"
  using steps_of_llm_plan_pending [of "[]" llm_plan]
  by (cases tt) (auto simp: make_plan_steps_def get_plan_for_type_def PlanStep_init_def)



lemma with_success_simps:
  "k_success results = None \<Longrightarrow> k_success (with_success results) = Some True"
  "k_plan (with_success results) = k_plan results"
  "k_final_answer (with_success results) = k_final_answer results"
  by (simp_all add: with_success_def)

lemma unified_result_qa:
  assumes "task_type_of lower a = QUESTION_ANSWERING"
  shows "k_success (fst (unified_execute_task lower handler sc a task ci)) = Some True"
    and "status_log (snd (unified_execute_task lower handler sc a task ci))
          = [(PlanRow, 0, COMPLETED)]"
    and "outcomes (snd (unified_execute_task lower handler sc a task ci)) = []"
proof -
  have u: "unified_execute_task lower handler sc a task ci =
     (execute_question_answering_stream sc task
        (empty_result \<lparr> k_task := Some task, k_started_at := Some Timestamp, k_steps := Some [],
             k_plan := Some [], k_final_answer := Some [] \<rparr>),
      (initial_exec_state [] (case an_extracted_params a of None \<Rightarrow> [] | Some ps \<Rightarrow> ps) ci)
             \<lparr> status_log := [(PlanRow, 0, COMPLETED)] \<rparr>)"
    unfolding unified_execute_task_def Let_def using assms by simp
  show "k_success (fst (unified_execute_task lower handler sc a task ci)) = Some True"
    unfolding u execute_question_answering_stream_def Let_def
    by (simp add: with_success_simps empty_result_def)
  show "status_log (snd (unified_execute_task lower handler sc a task ci))
          = [(PlanRow, 0, COMPLETED)]"
    unfolding u by simp
  show "outcomes (snd (unified_execute_task lower handler sc a task ci)) = []"
    unfolding u by (simp add: initial_exec_state_def)
qed

lemma unified_result_plan:
  assumes "task_type_of lower a \<noteq> QUESTION_ANSWERING"
  shows "unified_execute_task lower handler sc a task ci =
     (with_success
        (empty_result
           \<lparr> k_task := Some task, k_started_at := Some Timestamp, k_steps := Some [],
             k_plan := Some [], k_final_answer := Some [],
             k_plan := Some (map plan_row
               (make_plan_steps (get_list (an_plan a)) (task_type_of lower a) task)),
             k_task_type := Some (task_type_value (task_type_of lower a)),
             k_extracted_params :=
               Some (case an_extracted_params a of None \<Rightarrow> [] | Some ps \<Rightarrow> ps),
             k_final_answer :=
               Some (join [10, 10] (final_results (plan_state lower handler a task ci))),
             k_completed_at := Some Timestamp,
             k_plan := Some (plan_data (plan_state lower handler a task ci)) \<rparr>),
      plan_state lower handler a task ci)"
  unfolding unified_execute_task_def Let_def plan_state_def using assms by simp

lemma unified_result_plan_fields:
  assumes "task_type_of lower a \<noteq> QUESTION_ANSWERING"
  shows "snd (unified_execute_task lower handler sc a task ci)
          = plan_state lower handler a task ci"
    and "k_success (fst (unified_execute_task lower handler sc a task ci)) = Some True"
    and "k_plan (fst (unified_execute_task lower handler sc a task ci))
          = Some (plan_data (plan_state lower handler a task ci))"
    and "k_final_answer (fst (unified_execute_task lower handler sc a task ci))
          = Some (join [10, 10] (final_results (plan_state lower handler a task ci)))"
  unfolding unified_result_plan [OF assms]
  by (simp_all add: with_success_simps empty_result_def)

lemma plan_state_inv:
  "exec_inv (length (make_plan_steps (get_list (an_plan a)) (task_type_of lower a) task))
     (length (make_plan_steps (get_list (an_plan a)) (task_type_of lower a) task))
     (plan_state lower handler a task ci)"
  unfolding plan_state_def
  by (rule exec_inv_run_plan) (rule make_plan_steps_pending)

lemma final_status_cases: "final_status outcome = COMPLETED \<or> final_status outcome = FAILED"
  by (cases outcome) (simp_all add: final_status_def)

lemma seq_shapes_ok:
  assumes "s = [] \<or> s = [COMPLETED] \<or> s = [PENDING] \<or> s = [PENDING, X]
           \<or> s = [PENDING, IN_PROGRESS, X]"
    and "X = COMPLETED \<or> X = FAILED"
  shows "(subseq s [PENDING, IN_PROGRESS, COMPLETED] \<or> subseq s [PENDING, IN_PROGRESS, FAILED])
         \<and> \<not> subseq [COMPLETED, FAILED] s \<and> \<not> subseq [COMPLETED, IN_PROGRESS] s
         \<and> \<not> subseq [FAILED, IN_PROGRESS] s \<and> \<not> subseq [IN_PROGRESS, PENDING] s"
  using assms by auto

text \<open>
  C2.  Over a whole run of \<open>UnifiedAgent.execute_task\<close>, for every step object and every
  plan row, the sequence of status values assigned to it is a subsequence of
  \<open>[pending, in_progress, completed]\<close> or of \<open>[pending, in_progress, failed]\<close>; no status is
  followed by an earlier one, and none is completed and later failed.
\<close>

theorem C2_status_sequence:
  "(subseq (status_seq h i (status_log (snd (unified_execute_task lower handler sc a task ci))))
      [PENDING, IN_PROGRESS, COMPLETED]
    \<or> subseq (status_seq h i (status_log (snd (unified_execute_task lower handler sc a task ci))))
      [PENDING, IN_PROGRESS, FAILED])
   \<and> \<not> subseq [COMPLETED, FAILED]
         (status_seq h i (status_log (snd (unified_execute_task lower handler sc a task ci))))
   \<and> \<not> subseq [COMPLETED, IN_PROGRESS]
         (status_seq h i (status_log (snd (unified_execute_task lower handler sc a task ci))))
   \<and> \<not> subseq [FAILED, IN_PROGRESS]
         (status_seq h i (status_log (snd (unified_execute_task lower handler sc a task ci))))
   \<and> \<not> subseq [IN_PROGRESS, PENDING]
         (status_seq h i (status_log (snd (unified_execute_task lower handler sc a task ci))))"
proof -
  let ?s = "status_seq h i (status_log (snd (unified_execute_task lower handler sc a task ci)))"
  have "\<exists>X. (?s = [] \<or> ?s = [COMPLETED] \<or> ?s = [PENDING] \<or> ?s = [PENDING, X]
           \<or> ?s = [PENDING, IN_PROGRESS, X]) \<and> (X = COMPLETED \<or> X = FAILED)"
  proof (cases "task_type_of lower a = QUESTION_ANSWERING")
    case True
    have "?s = [] \<or> ?s = [COMPLETED]"
      by (simp add: unified_result_qa(2) [OF True] status_seq_def)
    then show ?thesis by blast
  next
    case False
    let ?n = "length (make_plan_steps (get_list (an_plan a)) (task_type_of lower a) task)"
    let ?fin = "plan_state lower handler a task ci"
    have fin: "snd (unified_execute_task lower handler sc a task ci) = ?fin"
      by (rule unified_result_plan_fields(1) [OF False])
    have inv: "exec_inv ?n ?n ?fin" by (rule plan_state_inv)
    show ?thesis
    proof (cases "i < ?n")
      case True
      then have "status_seq StepObject i (status_log ?fin)
                   = [PENDING, IN_PROGRESS, final_status (outcomes ?fin ! i)]"
        and "status_seq PlanRow i (status_log ?fin)
                   = [PENDING, final_status (outcomes ?fin ! i)]"
        using inv by (simp_all add: exec_inv_def)
      then show ?thesis
        unfolding fin using final_status_cases [of "outcomes ?fin ! i"]
        by (cases h) auto
    next
      case False
      then have "status_seq StepObject i (status_log ?fin) = []"
        and "status_seq PlanRow i (status_log ?fin) = []"
        using inv by (simp_all add: exec_inv_def)
      then show ?thesis
        unfolding fin by (cases h) auto
    qed
  qed
  then show ?thesis using seq_shapes_ok by blast
qed



text \<open>
  C10.  Every run of \<open>UnifiedAgent.execute_task\<close> that returns, returns \<open>success = True\<close>
  at top level, on the question-answering path and on the plan path alike; in particular
  when every handler raises, every plan row is failed and \<open>success\<close> is still \<open>True\<close>.
\<close>

theorem C10_success_flag:
  "k_success (fst (unified_execute_task lower handler sc a task ci)) = Some True
   \<and> ((\<forall>outcome \<in> set (outcomes (snd (unified_execute_task lower handler sc a task ci))).
          final_status outcome = FAILED) \<longrightarrow>
        k_success (fst (unified_execute_task lower handler sc a task ci)) = Some True
        \<and> (\<forall>row \<in> set (plan_data (snd (unified_execute_task lower handler sc a task ci))).
              pe_status row = FAILED))"
proof (cases "task_type_of lower a = QUESTION_ANSWERING")
  case True
  have "plan_data (snd (unified_execute_task lower handler sc a task ci)) = []"
    using True
    by (simp add: unified_execute_task_def Let_def initial_exec_state_def)
  then show ?thesis
    using unified_result_qa(1) [OF True] by simp
next
  case False
  let ?n = "length (make_plan_steps (get_list (an_plan a)) (task_type_of lower a) task)"
  let ?fin = "plan_state lower handler a task ci"
  note f = unified_result_plan_fields [OF False, of handler sc task ci]
  have inv: "exec_inv ?n ?n ?fin" by (rule plan_state_inv)
  then have len: "length (plan_data ?fin) = ?n" "length (outcomes ?fin) = ?n"
    by (simp_all add: exec_inv_def)
  have each: "pe_status (plan_data ?fin ! j) = final_status (outcomes ?fin ! j)"
    if "j < ?n" for j
    using inv that by (simp add: exec_inv_def)
  have "pe_status row = FAILED"
    if all: "\<forall>outcome \<in> set (outcomes ?fin). final_status outcome = FAILED"
      and row: "row \<in> set (plan_data ?fin)" for row
  proof -
    obtain j where j: "j < ?n" "row = plan_data ?fin ! j"
      using row len unfolding in_set_conv_nth by auto
    have "outcomes ?fin ! j \<in> set (outcomes ?fin)"
      using j len by simp
    then show ?thesis using all each [OF j(1)] j(2) by simp
  qed
  then show ?thesis
    unfolding f by blast
qed

lemma outcomes_fold:
  assumes h: "\<And>i step ctx. fst (handler i step task tt ctx) = f i"
    and inv: "exec_inv n 0 st" and m: "m \<le> n"
  shows "outcomes (foldl (run_step handler task tt) st [0..<m]) = map f [0..<m]"
  using m
proof (induction m)
  case 0
  then show ?case using inv by (simp add: exec_inv_def)
next
  case (Suc m)
  let ?st = "foldl (run_step handler task tt) st [0..<m]"
  have iv: "exec_inv n m ?st"
    using exec_inv_fold [OF inv, of m handler task tt] Suc.prems by simp
  then have ml: "m < length (plan_steps ?st)"
    using Suc.prems by (simp add: exec_inv_def)
  obtain outcome ctx where
    hh: "handler m (set_status (plan_steps ?st ! m) IN_PROGRESS) task tt (exec_context ?st)
          = (outcome, ctx)"
    by (cases "handler m (set_status (plan_steps ?st ! m) IN_PROGRESS) task tt
                 (exec_context ?st)")
  have "outcome = f m"
    using h [of m "set_status (plan_steps ?st ! m) IN_PROGRESS" "exec_context ?st"] hh
    by simp
  then show ?case
    using run_step_eq(2) [where handler = handler and i = m and st = ?st and task = task
        and tt = tt, OF hh ml] Suc
    by simp
qed

lemma outcomes_plan_state:
  assumes "\<And>i step ctx. fst (handler i step task (task_type_of lower a) ctx) = f i"
  shows "outcomes (plan_state lower handler a task ci)
          = map f [0..<length (make_plan_steps (get_list (an_plan a))
                                 (task_type_of lower a) task)]"
proof -
  let ?steps = "make_plan_steps (get_list (an_plan a)) (task_type_of lower a) task"
  let ?st0 = "initial_exec_state ?steps
                (case an_extracted_params a of None \<Rightarrow> [] | Some ps \<Rightarrow> ps) ci"
  have l: "length (plan_steps ?st0) = length ?steps"
    by (simp add: initial_exec_state_def)
  have inv: "exec_inv (length ?steps) 0 ?st0"
    by (rule exec_inv_initial) (rule make_plan_steps_pending)
  show ?thesis
    unfolding plan_state_def run_plan_def l
    by (rule outcomes_fold [where handler = handler and f = f, OF assms inv]) simp
qed

lemma dup_analysis_type: "task_type_of ascii_lower dup_analysis = GENERAL"
  by (simp add: task_type_of_def dup_analysis_def ascii_lower_def ascii_def sublist_Cons_right)

lemma dup_analysis_steps:
  "make_plan_steps (get_list (an_plan dup_analysis)) GENERAL task
    = [PlanStep_init (ascii ''a'') (ascii ''first'') [] (ascii ''result''),
       PlanStep_init (ascii ''a'') (ascii ''second'') [] (ascii ''result'')]"
  by (simp add: make_plan_steps_def dup_analysis_def dup_plan_def get_list_def step_info_of_def)

lemma steps_of_llm_plan_ids:
  "map ps_step_id (steps_of_llm_plan acc infos)
    = map ps_step_id acc @ map (\<lambda>(k, si). llm_step_id k si) (enumerate (length acc) infos)"
  by (induction acc infos rule: steps_of_llm_plan.induct)
     (simp_all add: PlanStep_init_def llm_step_id_def)

lemma template_ids:
  "distinct (map ps_step_id (get_plan_for_type tt task))
   \<and> [] \<notin> set (map ps_step_id (get_plan_for_type tt task))
   \<and> length (get_plan_for_type tt task) = 3"
  by (cases tt) (simp_all add: get_plan_for_type_def PlanStep_init_def ascii_def)

lemma row_of_outcome_id: "pe_step_id (row_of_outcome row outcome) = pe_step_id row"
  by (cases outcome) (simp_all add: row_of_outcome_def)

lemma plan_ids_fold:
  assumes inv: "exec_inv n 0 st" and m: "m \<le> n"
  shows "map pe_step_id (plan_data (foldl (run_step handler task tt) st [0..<m]))
          = map pe_step_id (plan_data st)"
  using m
proof (induction m)
  case 0
  then show ?case by simp
next
  case (Suc m)
  let ?st = "foldl (run_step handler task tt) st [0..<m]"
  have iv: "exec_inv n m ?st"
    using exec_inv_fold [OF inv, of m handler task tt] Suc.prems by simp
  then have ml: "m < length (plan_steps ?st)" and dl: "m < length (plan_data ?st)"
    using Suc.prems by (simp_all add: exec_inv_def)
  obtain outcome ctx where
    hh: "handler m (set_status (plan_steps ?st ! m) IN_PROGRESS) task tt (exec_context ?st)
          = (outcome, ctx)"
    by (cases "handler m (set_status (plan_steps ?st ! m) IN_PROGRESS) task tt
                 (exec_context ?st)")
  have "map pe_step_id (plan_data (run_step handler task tt ?st m))
        = (map pe_step_id (plan_data ?st))[m := pe_step_id (plan_data ?st ! m)]"
    by (simp add: run_step_eq(4) [where handler = handler and i = m and st = ?st
          and task = task and tt = tt, OF hh ml] map_update row_of_outcome_id)
  also have "\<dots> = map pe_step_id (plan_data ?st)"
    using dl by (simp add: list_update_same_conv)
  finally show ?case using Suc by simp
qed

lemma plan_state_ids:
  "map pe_step_id (plan_data (plan_state lower handler a task ci))
    = map ps_step_id (make_plan_steps (get_list (an_plan a)) (task_type_of lower a) task)"
proof -
  let ?steps = "make_plan_steps (get_list (an_plan a)) (task_type_of lower a) task"
  let ?st0 = "initial_exec_state ?steps
                (case an_extracted_params a of None \<Rightarrow> [] | Some ps \<Rightarrow> ps) ci"
  have l: "length (plan_steps ?st0) = length ?steps"
    by (simp add: initial_exec_state_def)
  have inv: "exec_inv (length ?steps) 0 ?st0"
    by (rule exec_inv_initial) (rule make_plan_steps_pending)
  have "map pe_step_id (plan_data ?st0) = map ps_step_id ?steps"
    by (simp add: initial_exec_state_def plan_row_def comp_def)
  then show ?thesis
    unfolding plan_state_def run_plan_def l
    using plan_ids_fold [OF inv, of "length ?steps" handler task "task_type_of lower a"]
    by simp
qed

text \<open>
  C8 (as amended).  The fixed template of every task type has unique, non-empty step
  ids and is what the plan generator returns when the oracle's plan is empty.  A
  non-empty oracle plan is passed through entry by entry, each step taking the entry's
  id (\<open>step_k\<close> for an entry without one at position \<open>k\<close>), with no check of the ids; the
  plan rows executed and returned carry exactly these ids.
\<close>

theorem C8_plan_step_ids:
  "distinct (map ps_step_id (get_plan_for_type tt task))
   \<and> [] \<notin> set (map ps_step_id (get_plan_for_type tt task))
   \<and> (llm_plan = [] \<longrightarrow> make_plan_steps llm_plan tt task = get_plan_for_type tt task)
   \<and> (llm_plan \<noteq> [] \<longrightarrow>
        map ps_step_id (make_plan_steps llm_plan tt task)
          = map (\<lambda>(k, si). llm_step_id k si) (enumerate 0 llm_plan))
   \<and> (task_type_of lower a \<noteq> QUESTION_ANSWERING \<longrightarrow>
        map pe_step_id (get_list (k_plan (fst (unified_execute_task lower handler sc a task ci))))
          = map ps_step_id
              (make_plan_steps (get_list (an_plan a)) (task_type_of lower a) task))"
  using template_ids [of tt task] steps_of_llm_plan_ids [of "[]" llm_plan]
    unified_result_plan_fields(3) [of lower a handler sc task ci]
    plan_state_ids [of lower handler a task ci]
  by (simp add: make_plan_steps_def get_list_def)

lemma get_list_Some: "get_list (Some xs) = xs"
  by (simp add: get_list_def)

lemma dup_run_fields:
  "snd (unified_execute_task ascii_lower handler sc dup_analysis task ci)
     = plan_state ascii_lower handler dup_analysis task ci"
  "length (make_plan_steps (get_list (an_plan dup_analysis))
            (task_type_of ascii_lower dup_analysis) task) = 2"
  using unified_result_plan_fields(1) [of ascii_lower dup_analysis handler sc task ci]
  by (simp_all add: dup_analysis_type dup_analysis_steps)


lemma always_failing_outcomes:
  "outcomes (snd (unified_execute_task ascii_lower always_failing_handler None dup_analysis
                    [] None))
    = [HandlerRaises (ascii ''boom''), HandlerRaises (ascii ''boom'')]"
proof -
  have "outcomes (plan_state ascii_lower always_failing_handler dup_analysis [] None)
      = map (\<lambda>i. HandlerRaises (ascii ''boom'')) [0..<2]"
    using outcomes_plan_state [where handler = always_failing_handler
        and f = "\<lambda>i. HandlerRaises (ascii ''boom'')"
        and lower = ascii_lower and a = dup_analysis and task = "[]" and ci = None]
    by (simp add: always_failing_handler_def dup_run_fields(2))
  then show ?thesis
    by (simp add: dup_run_fields(1) upt_rec numeral_2_eq_2)
qed


text \<open>Witness for C10: a two-step plan on which every handler raises.\<close>

theorem C10_success_flag_witness:
  "list_all (\<lambda>outcome. final_status outcome = FAILED)
     (outcomes (snd (unified_execute_task ascii_lower always_failing_handler None
                       dup_analysis [] None)))
   \<and> length (outcomes (snd (unified_execute_task ascii_lower always_failing_handler None
                              dup_analysis [] None))) = 2
   \<and> k_success (fst (unified_execute_task ascii_lower always_failing_handler None
                        dup_analysis [] None)) = Some True
   \<and> list_all (\<lambda>row. pe_status row = FAILED)
       (plan_data (snd (unified_execute_task ascii_lower always_failing_handler None
                          dup_analysis [] None)))"
proof -
  let ?R = "unified_execute_task ascii_lower always_failing_handler None dup_analysis [] None"
  have o: "outcomes (snd ?R) = [HandlerRaises (ascii ''boom''), HandlerRaises (ascii ''boom'')]"
    by (rule always_failing_outcomes)
  have h: "\<forall>outcome \<in> set (outcomes (snd ?R)). final_status outcome = FAILED"
    by (simp add: o final_status_def)
  show ?thesis
    using h C10_success_flag [of ascii_lower always_failing_handler None dup_analysis "[]" None]
    by (simp add: o list_all_iff)
qed

text \<open>Witness for C8: the oracle plan with two steps of id \<open>a\<close> is passed through.\<close>

theorem C8_plan_step_ids_witness:
  "dup_plan \<noteq> []
   \<and> map ps_step_id (make_plan_steps dup_plan GENERAL []) = [ascii ''a'', ascii ''a'']
   \<and> make_plan_steps [] GENERAL [] = get_plan_for_type GENERAL []
   \<and> task_type_of ascii_lower dup_analysis \<noteq> QUESTION_ANSWERING
   \<and> map pe_step_id
        (get_list (k_plan (fst (unified_execute_task ascii_lower failing_first_handler None
                                  dup_analysis [] None))))
       = [ascii ''a'', ascii ''a'']"
proof -
  have ne: "dup_plan \<noteq> []" by (simp add: dup_plan_def)
  have nq: "task_type_of ascii_lower dup_analysis \<noteq> QUESTION_ANSWERING"
    by (simp add: dup_analysis_type)
  have en: "enumerate 0 dup_plan
      = [(0, step_info_of (ascii ''a'') (ascii ''first'') [] (ascii ''result'')),
         (1, step_info_of (ascii ''a'') (ascii ''second'') [] (ascii ''result''))]"
    by (simp add: dup_plan_def)
  have pl: "get_list (an_plan dup_analysis) = dup_plan"
    by (simp add: dup_analysis_def get_list_def)
  show ?thesis
    using ne nq
      C8_plan_step_ids [where tt = GENERAL and task = "[]" and llm_plan = dup_plan
        and lower = ascii_lower and a = dup_analysis and handler = failing_first_handler
        and sc = None and ci = None]
      C8_plan_step_ids [where tt = GENERAL and task = "[]" and llm_plan = "[]"]
    by (simp add: en llm_step_id_def step_info_of_def dup_analysis_type pl)
qed

text \<open>
  C8 as stated fails: for an oracle plan whose two steps share the id \<open>a\<close> the generator
  returns steps with ids \<open>a, a\<close>, not the template, and these are the rows executed.
\<close>

theorem C8_plan_step_ids_counterexample:
  "\<not> distinct (map ps_step_id (make_plan_steps dup_plan GENERAL []))
   \<and> make_plan_steps dup_plan GENERAL [] \<noteq> get_plan_for_type GENERAL []
   \<and> map pe_step_id
        (get_list (k_plan (fst (unified_execute_task ascii_lower failing_first_handler None
                                  dup_analysis [] None))))
       = [ascii ''a'', ascii ''a'']"
proof -
  have pl: "get_list (an_plan dup_analysis) = dup_plan"
    by (simp add: dup_analysis_def get_list_def)
  have steps: "make_plan_steps dup_plan GENERAL []
    = [PlanStep_init (ascii ''a'') (ascii ''first'') [] (ascii ''result''),
       PlanStep_init (ascii ''a'') (ascii ''second'') [] (ascii ''result'')]"
    using dup_analysis_steps [of "[]"] by (simp add: pl)
  have a: "\<not> distinct (map ps_step_id (make_plan_steps dup_plan GENERAL []))"
    by (simp add: steps PlanStep_init_def)
  have b: "make_plan_steps dup_plan GENERAL [] \<noteq> get_plan_for_type GENERAL []"
    by (simp add: steps get_plan_for_type_def)
  have "map pe_step_id
        (get_list (k_plan (fst (unified_execute_task ascii_lower failing_first_handler None
                                  dup_analysis [] None))))
       = map ps_step_id (make_plan_steps dup_plan GENERAL [])"
    using unified_result_plan_fields(3) [of ascii_lower dup_analysis failing_first_handler
        None "[]" None]
      plan_state_ids [of ascii_lower failing_first_handler dup_analysis "[]" None]
    by (simp add: dup_analysis_type pl get_list_Some)
  then show ?thesis
    using a b by (simp add: steps PlanStep_init_def)
qed

end
